theory Spec2Isabelle
  imports Main "HOL-Library.AList"
begin

text \<open>
  A shallow embedding of \<open>jwe.go\<close>, the parser and serializer of JWE objects in their
  compact and JSON forms: the data model, the header merge, the authenticated data, the
  two parsers and the two serializers, each as a function that computes what the Go
  function returns. Errors and run-time panics are values of the type \<open>error\<close>. The
  base64url and JSON primitives, which live outside the file, are parameters of the model.
\<close>

section \<open>Data model of jwe.go\<close>

text \<open>
  A Go byte slice is either \<open>nil\<close> or a sequence of bytes; the source tests
  \<open>obj.aad != nil\<close>, so the difference between \<open>nil\<close> and the empty slice is kept.
  Reading a nil slice gives no bytes.
\<close>

type_synonym byte_seq = "char list"
type_synonym byte_slice = "byte_seq option"

definition contents :: "byte_slice \<Rightarrow> byte_seq" where
  "contents b = (case b of None \<Rightarrow> [] | Some d \<Rightarrow> d)"

datatype error =
    Base64Error
  | JSONSyntaxError
  | MalformedHeader
  | MalformedCompact
  | MissingAlgEnc
  | ErrNotSupported
  | IndexOutOfRange
  | NilDereference

text \<open>
  Modelled from the spec: the type \<open>Header\<close>, whose declaration is not in jwe.go. The spec
  treats it as an ordered mapping from string keys to values that exposes the two reserved
  keys \<open>alg\<close> and \<open>enc\<close>; the source reads them as \<open>headers.Alg\<close> and \<open>headers.Enc\<close> and
  compares them with the empty string, so an absent key reads as the empty string.
\<close>

type_synonym Header = "(string \<times> string) list"

definition Alg :: "Header \<Rightarrow> string" where
  "Alg h = (case map_of h ''alg'' of None \<Rightarrow> [] | Some v \<Rightarrow> v)"

definition Enc :: "Header \<Rightarrow> string" where
  "Enc h = (case map_of h ''enc'' of None \<Rightarrow> [] | Some v \<Rightarrow> v)"

text \<open>
  Modelled from the spec: \<open>Header.merge\<close>, which is not in jwe.go. The spec: the entries of
  a present mapping are applied over the result, an entry for a key that is already there
  overwrites it, and an absent mapping is skipped.
\<close>

definition merge :: "Header \<Rightarrow> Header option \<Rightarrow> Header" where
  "merge dst src =
     (case src of
        None \<Rightarrow> dst
      | Some s \<Rightarrow> fold (\<lambda>(k, v). AList.update k v) s dst)"

text \<open>
  Modelled from the spec: \<open>encodedBuffer\<close>, a buffer of bytes that is base64url-encoded when
  it is serialized; its declaration, \<open>newBuffer\<close> and the method \<open>bytes\<close> are not in jwe.go.
  An absent byte sequence gives an absent buffer, and an absent buffer has no bytes (the
  source calls \<open>bytes\<close> on the optional fields of a parsed object).
\<close>

datatype encodedBuffer = EncodedBuffer (data: byte_slice)

definition newBuffer :: "byte_slice \<Rightarrow> encodedBuffer option" where
  "newBuffer d = (case d of None \<Rightarrow> None | Some x \<Rightarrow> Some (EncodedBuffer (Some x)))"

definition bytes :: "encodedBuffer option \<Rightarrow> byte_slice" where
  "bytes b = (case b of None \<Rightarrow> None | Some buf \<Rightarrow> data buf)"

record rawRecipientInfo =
  RecipientHeader :: "Header option"
  RecipientEncryptedKey :: string

record rawJsonWebEncryption =
  Protected :: "encodedBuffer option"
  Unprotected :: "Header option"
  Header :: "Header option"
  Recipients :: "rawRecipientInfo list"
  Aad :: "encodedBuffer option"
  EncryptedKey :: "encodedBuffer option"
  Iv :: "encodedBuffer option"
  Ciphertext :: "encodedBuffer option"
  Tag :: "encodedBuffer option"

record recipientInfo =
  header :: "Header option"
  encryptedKey :: byte_slice

record JsonWebEncryption =
  protected :: "Header option"
  unprotected :: "Header option"
  recipients :: "recipientInfo list"
  aad :: byte_slice
  iv :: byte_slice
  ciphertext :: byte_slice
  tag :: byte_slice
  original :: "rawJsonWebEncryption option"

text \<open>A JSON value, as far as the serializer of the raw object needs it. A header is
  written by the header serializer and embedded as it is.\<close>

datatype json =
    JString string
  | JRaw byte_seq
  | JArray "json list"
  | JObject "(string \<times> json) list"

section \<open>The collaborators\<close>

text \<open>
  The base64url and JSON primitives are outside jwe.go (\<open>base64URLEncode\<close>,
  \<open>base64URLDecode\<close>, \<open>mustSerializeJSON\<close>, \<open>json.Unmarshal\<close>) and the spec consumes them
  as opaque interfaces, so the model takes them as parameters:
  \<^item> \<open>base64URLEncode\<close>, \<open>base64URLDecode\<close>: the base64url codec;
  \<open>base64URLDecode\<close> returns its own error on failure;
  \<^item> \<open>serializeHeader\<close>: \<open>mustSerializeJSON\<close> at a \<open>*Header\<close>;
  \<^item> \<open>unmarshalHeader\<close>: \<open>json.Unmarshal\<close> of header bytes; \<open>None\<close> is the JSON \<open>null\<close>,
  which leaves a pointer nil and a struct value untouched;
  \<^item> \<open>unmarshalRaw\<close>: \<open>json.Unmarshal\<close> of the input text into the raw object;
  \<^item> \<open>renderJSON\<close>: the text of a JSON value;
  \<^item> \<open>base64OfNil\<close>: what the method \<open>base64\<close> of \<open>encodedBuffer\<close> does on a nil buffer,
  which its body, not in jwe.go, decides.
\<close>

record prims =
  base64URLEncode :: "byte_seq \<Rightarrow> string"
  base64URLDecode :: "string \<Rightarrow> error + byte_slice"
  serializeHeader :: "Header option \<Rightarrow> byte_seq"
  unmarshalHeader :: "byte_seq \<Rightarrow> error + Header option"
  unmarshalRaw :: "string \<Rightarrow> error + rawJsonWebEncryption"
  renderJSON :: "json \<Rightarrow> string"
  base64OfNil :: "error + string"

text \<open>Modelled from the spec: the method \<open>base64\<close> of \<open>encodedBuffer\<close>, not in jwe.go:
  the base64url text of the bytes of the buffer.\<close>

definition base64 :: "prims \<Rightarrow> encodedBuffer option \<Rightarrow> error + string" where
  "base64 P b =
     (case b of
        None \<Rightarrow> base64OfNil P
      | Some buf \<Rightarrow> Inr (base64URLEncode P (contents (data buf))))"

section \<open>Header merge and authenticated data\<close>

text \<open>\<open>mergedHeaders\<close>, jwe.go lines 70 to 80. The recipient is a pointer and may be nil.\<close>

definition mergedHeaders :: "JsonWebEncryption \<Rightarrow> recipientInfo option \<Rightarrow> Header" where
  "mergedHeaders obj recipient =
     (let out = [];
          out = merge out (protected obj);
          out = merge out (unprotected obj)
      in case recipient of
           None \<Rightarrow> out
         | Some r \<Rightarrow> merge out (header r))"

text \<open>\<open>GetAuthData\<close>, lines 59 to 67: a copy of \<open>aad\<close>, or nil.\<close>

definition GetAuthData :: "JsonWebEncryption \<Rightarrow> byte_slice" where
  "GetAuthData obj = (case aad obj of None \<Rightarrow> None | Some a \<Rightarrow> Some a)"

text \<open>\<open>computeAuthData\<close>, lines 83 to 99.\<close>

definition computeAuthData :: "prims \<Rightarrow> JsonWebEncryption \<Rightarrow> error + byte_seq" where
  "computeAuthData P obj =
     (case (case original obj of
              Some raw \<Rightarrow> base64 P (Protected raw)
            | None \<Rightarrow> Inr (base64URLEncode P (serializeHeader P (protected obj)))) of
        Inl e \<Rightarrow> Inl e
      | Inr prot \<Rightarrow>
          Inr (case aad obj of
                 None \<Rightarrow> prot
               | Some a \<Rightarrow> prot @ ''.'' @ base64URLEncode P a))"

section \<open>Parsing\<close>

text \<open>\<open>strings.Split\<close> at a separator of one character: the pieces between the
  separators, one more than there are separators.\<close>

primrec splitOn :: "char \<Rightarrow> string \<Rightarrow> string list" where
  "splitOn sep [] = [] # []"
| "splitOn sep (c # cs) =
     (if c = sep then [] # splitOn sep cs
      else (case splitOn sep cs of
              [] \<Rightarrow> [c] # []
            | p # ps \<Rightarrow> (c # p) # ps))"

text \<open>Modelled from the spec: \<open>stripWhitespace\<close>, not in jwe.go: all whitespace is removed
  from the input.\<close>

definition whitespace :: "char list" where
  "whitespace = [CHR 0x20, CHR 0x09, CHR 0x0A, CHR 0x0B, CHR 0x0C, CHR 0x0D]"

definition stripWhitespace :: "string \<Rightarrow> string" where
  "stripWhitespace s = filter (\<lambda>c. c \<notin> set whitespace) s"

text \<open>\<open>parseEncryptedCompact\<close>, lines 166 to 225.\<close>

definition parseEncryptedCompact :: "prims \<Rightarrow> string \<Rightarrow> error + JsonWebEncryption" where
  "parseEncryptedCompact P input =
     (case splitOn CHR ''.'' input of
        [p0, p1, p2, p3, p4] \<Rightarrow>
          (case base64URLDecode P p0 of
             Inl e \<Rightarrow> Inl e
           | Inr rawProtected \<Rightarrow>
          (case unmarshalHeader P (contents rawProtected) of
             Inl e \<Rightarrow> Inl e
           | Inr decoded \<Rightarrow>
          (let protected' = (case decoded of None \<Rightarrow> [] | Some h \<Rightarrow> h) in
           if Alg protected' = [] \<or> Enc protected' = [] then Inl MissingAlgEnc
           else
          (case base64URLDecode P p1 of
             Inl e \<Rightarrow> Inl e
           | Inr encryptedKey' \<Rightarrow>
          (case base64URLDecode P p2 of
             Inl e \<Rightarrow> Inl e
           | Inr iv' \<Rightarrow>
          (case base64URLDecode P p3 of
             Inl e \<Rightarrow> Inl e
           | Inr ciphertext' \<Rightarrow>
          (case base64URLDecode P p4 of
             Inl e \<Rightarrow> Inl e
           | Inr tag' \<Rightarrow>
             Inr \<lparr> protected = Some protected',
                   unprotected = None,
                   recipients = [\<lparr> header = None, encryptedKey = encryptedKey' \<rparr>],
                   aad = None,
                   iv = iv',
                   ciphertext = ciphertext',
                   tag = tag',
                   original = Some
                     \<lparr> Protected = newBuffer rawProtected,
                       Unprotected = None,
                       Header = None,
                       Recipients = [],
                       Aad = None,
                       EncryptedKey = newBuffer encryptedKey',
                       Iv = newBuffer iv',
                       Ciphertext = newBuffer ciphertext',
                       Tag = newBuffer tag' \<rparr> \<rparr>)))))))
      | _ \<Rightarrow> Inl MalformedCompact)"

text \<open>\<open>parseEncryptedFull\<close>, lines 112 to 163, in its four steps: the protected header
  (lines 123 to 128), the recipients (lines 130 to 148), the check of \<open>alg\<close> and \<open>enc\<close>
  (lines 150 to 155), and the byte fields (lines 157 to 160).\<close>

definition decodeProtected :: "prims \<Rightarrow> rawJsonWebEncryption \<Rightarrow> error + Header option" where
  "decodeProtected P parsed =
     (if Protected parsed \<noteq> None \<and> length (contents (bytes (Protected parsed))) > 0
      then (case unmarshalHeader P (contents (bytes (Protected parsed))) of
              Inl e \<Rightarrow> Inl MalformedHeader
            | Inr h \<Rightarrow> Inr h)
      else Inr None)"

fun decodeRecipients :: "prims \<Rightarrow> rawRecipientInfo list \<Rightarrow> error + recipientInfo list" where
  "decodeRecipients P [] = Inr []"
| "decodeRecipients P (r # rs) =
     (case base64URLDecode P (RecipientEncryptedKey r) of
        Inl e \<Rightarrow> Inl e
      | Inr encryptedKey' \<Rightarrow>
          (case decodeRecipients P rs of
             Inl e \<Rightarrow> Inl e
           | Inr out \<Rightarrow> Inr (\<lparr> header = RecipientHeader r, encryptedKey = encryptedKey' \<rparr> # out)))"

definition buildRecipients :: "prims \<Rightarrow> rawJsonWebEncryption \<Rightarrow> error + recipientInfo list" where
  "buildRecipients P parsed =
     (if length (Recipients parsed) = 0
      then Inr [\<lparr> header = Header parsed, encryptedKey = bytes (EncryptedKey parsed) \<rparr>]
      else decodeRecipients P (Recipients parsed))"

fun checkAlgEnc :: "JsonWebEncryption \<Rightarrow> recipientInfo list \<Rightarrow> bool" where
  "checkAlgEnc obj [] = True"
| "checkAlgEnc obj (recipient # rest) =
     (let headers = mergedHeaders obj (Some recipient) in
      if Alg headers = [] \<or> Enc headers = [] then False else checkAlgEnc obj rest)"

text \<open>The object as it stands when the headers are checked: lines 119 to 148 have set
  \<open>original\<close>, \<open>unprotected\<close>, \<open>protected\<close> and \<open>recipients\<close>; the byte fields are still
  nil.\<close>

definition partialObject ::
  "rawJsonWebEncryption \<Rightarrow> Header option \<Rightarrow> recipientInfo list \<Rightarrow> JsonWebEncryption" where
  "partialObject parsed prot rs =
     \<lparr> protected = prot,
       unprotected = Unprotected parsed,
       recipients = rs,
       aad = None, iv = None, ciphertext = None, tag = None,
       original = Some parsed \<rparr>"

definition parseEncryptedFull :: "prims \<Rightarrow> string \<Rightarrow> error + JsonWebEncryption" where
  "parseEncryptedFull P input =
     (case unmarshalRaw P input of
        Inl e \<Rightarrow> Inl e
      | Inr parsed \<Rightarrow>
     (case decodeProtected P parsed of
        Inl e \<Rightarrow> Inl e
      | Inr prot \<Rightarrow>
     (case buildRecipients P parsed of
        Inl e \<Rightarrow> Inl e
      | Inr rs \<Rightarrow>
     (let obj = partialObject parsed prot rs
      in if checkAlgEnc obj (recipients obj)
         then Inr (obj \<lparr> iv := bytes (Iv parsed),
                         ciphertext := bytes (Ciphertext parsed),
                         tag := bytes (Tag parsed),
                         aad := bytes (Aad parsed) \<rparr>)
         else Inl MissingAlgEnc))))"

text \<open>\<open>ParseEncrypted\<close>, lines 102 to 109.\<close>

definition ParseEncrypted :: "prims \<Rightarrow> string \<Rightarrow> error + JsonWebEncryption" where
  "ParseEncrypted P input =
     (let input = stripWhitespace input in
      if take 1 input = ''{'' then parseEncryptedFull P input
      else parseEncryptedCompact P input)"

section \<open>Serializing\<close>

text \<open>\<open>CompactSerialize\<close>, lines 228 to 242. The condition is evaluated from left to
  right and stops at the first disjunct that holds; \<open>obj.recipients[0]\<close> on an empty
  sequence is a run-time panic.\<close>

definition CompactSerialize :: "prims \<Rightarrow> JsonWebEncryption \<Rightarrow> error + string" where
  "CompactSerialize P obj =
     (if length (recipients obj) > 1 then Inl ErrNotSupported
      else if unprotected obj \<noteq> None then Inl ErrNotSupported
      else (case recipients obj of
              [] \<Rightarrow> Inl IndexOutOfRange
            | r0 # _ \<Rightarrow>
                if header r0 \<noteq> None then Inl ErrNotSupported
                else
                  (let serializedProtected = serializeHeader P (protected obj) in
                   Inr (base64URLEncode P serializedProtected @ ''.'' @
                        base64URLEncode P (contents (encryptedKey r0)) @ ''.'' @
                        base64URLEncode P (contents (iv obj)) @ ''.'' @
                        base64URLEncode P (contents (ciphertext obj)) @ ''.'' @
                        base64URLEncode P (contents (tag obj))))))"

text \<open>The raw object that \<open>FullSerialize\<close> builds, lines 246 to 270.\<close>

definition rawRecipient :: "prims \<Rightarrow> recipientInfo \<Rightarrow> rawRecipientInfo" where
  "rawRecipient P recipient =
     \<lparr> RecipientHeader = header recipient,
       RecipientEncryptedKey = base64URLEncode P (contents (encryptedKey recipient)) \<rparr>"

definition FullSerializeRaw :: "prims \<Rightarrow> JsonWebEncryption \<Rightarrow> error + rawJsonWebEncryption" where
  "FullSerializeRaw P obj =
     (case recipients obj of
        [] \<Rightarrow> Inl IndexOutOfRange
      | r0 # _ \<Rightarrow>
          (let raw = \<lparr> Protected = None,
                       Unprotected = unprotected obj,
                       Header = None,
                       Recipients = [],
                       Aad = newBuffer (aad obj),
                       EncryptedKey = newBuffer (encryptedKey r0),
                       Iv = newBuffer (iv obj),
                       Ciphertext = newBuffer (ciphertext obj),
                       Tag = newBuffer (tag obj) \<rparr>;
               raw = (if length (recipients obj) > 1
                      then raw \<lparr> Recipients := Recipients raw @ map (rawRecipient P) (recipients obj) \<rparr>
                      else raw \<lparr> Header := header r0,
                                 EncryptedKey := newBuffer (encryptedKey r0) \<rparr>)
           in Inr (raw \<lparr> Protected := newBuffer (Some (serializeHeader P (protected obj))) \<rparr>)))"

text \<open>
  \<open>json.Marshal\<close> at the two raw types, by their field tags (lines 26 to 42): every field
  is \<open>omitempty\<close>, so a nil pointer, an empty array and an empty string are left out, and
  the members come in the order of the fields. A buffer is written as the string of its
  base64url text.
\<close>

definition memberHeader :: "string \<Rightarrow> Header option \<Rightarrow> prims \<Rightarrow> (string \<times> json) list" where
  "memberHeader name h P =
     (case h of None \<Rightarrow> [] | Some x \<Rightarrow> [(name, JRaw (serializeHeader P (Some x)))])"

definition memberBuffer :: "string \<Rightarrow> encodedBuffer option \<Rightarrow> prims \<Rightarrow> (string \<times> json) list" where
  "memberBuffer name b P =
     (case b of
        None \<Rightarrow> []
      | Some buf \<Rightarrow> [(name, JString (base64URLEncode P (contents (data buf))))])"

definition marshalRecipient :: "prims \<Rightarrow> rawRecipientInfo \<Rightarrow> json" where
  "marshalRecipient P r =
     JObject (memberHeader ''header'' (RecipientHeader r) P @
              (if RecipientEncryptedKey r = [] then []
               else [(''encrypted_key'', JString (RecipientEncryptedKey r))]))"

definition marshalRaw :: "prims \<Rightarrow> rawJsonWebEncryption \<Rightarrow> (string \<times> json) list" where
  "marshalRaw P raw =
     memberBuffer ''protected'' (Protected raw) P @
     memberHeader ''unprotected'' (Unprotected raw) P @
     memberHeader ''header'' (Header raw) P @
     (if Recipients raw = [] then []
      else [(''recipients'', JArray (map (marshalRecipient P) (Recipients raw)))]) @
     memberBuffer ''aad'' (Aad raw) P @
     memberBuffer ''encrypted_key'' (EncryptedKey raw) P @
     memberBuffer ''iv'' (Iv raw) P @
     memberBuffer ''ciphertext'' (Ciphertext raw) P @
     memberBuffer ''tag'' (Tag raw) P"

text \<open>\<open>FullSerialize\<close>, lines 245 to 273: the members of the JSON object it writes, and
  its text.\<close>

definition FullSerializeMembers :: "prims \<Rightarrow> JsonWebEncryption \<Rightarrow> error + (string \<times> json) list" where
  "FullSerializeMembers P obj =
     (case FullSerializeRaw P obj of
        Inl e \<Rightarrow> Inl e
      | Inr raw \<Rightarrow> Inr (marshalRaw P raw))"

definition FullSerialize :: "prims \<Rightarrow> JsonWebEncryption \<Rightarrow> error + string" where
  "FullSerialize P obj =
     (case FullSerializeMembers P obj of
        Inl e \<Rightarrow> Inl e
      | Inr members \<Rightarrow> Inr (renderJSON P (JObject members)))"

section \<open>Notions of the specification\<close>

text \<open>The entry that an optional header has for a key; an absent header has none.\<close>

definition entryOf :: "Header option \<Rightarrow> string \<Rightarrow> string option" where
  "entryOf h k = (case h of None \<Rightarrow> None | Some es \<Rightarrow> map_of es k)"

text \<open>A header is a mapping: no key has two entries.\<close>

definition distinctKeys :: "Header option \<Rightarrow> bool" where
  "distinctKeys h = (case h of None \<Rightarrow> True | Some es \<Rightarrow> distinct (map fst es))"

definition headerOf :: "recipientInfo option \<Rightarrow> Header option" where
  "headerOf recipient = (case recipient of None \<Rightarrow> None | Some r \<Rightarrow> header r)"

text \<open>The error of the first segment of a list that the base64url decoder rejects.\<close>

fun firstError :: "prims \<Rightarrow> string list \<Rightarrow> error option" where
  "firstError P [] = None"
| "firstError P (p # ps) =
     (case base64URLDecode P p of Inl e \<Rightarrow> Some e | Inr _ \<Rightarrow> firstError P ps)"

text \<open>
  What the compact round trip needs of the base64url codec at one byte sequence: the
  text of the bytes is over the base64url alphabet (so it has no dot, no whitespace and
  no brace), and decoding the text gives the bytes back.
\<close>

definition b64alphabet :: string where
  "b64alphabet = ''ABCDEFGHIJKLMNOPQRSTUVWXYZabcdefghijklmnopqrstuvwxyz0123456789-_''"

definition roundTrips :: "prims \<Rightarrow> byte_seq \<Rightarrow> bool" where
  "roundTrips P bs =
     (list_all (\<lambda>c. c \<in> set b64alphabet) (base64URLEncode P bs) \<and>
      (case base64URLDecode P (base64URLEncode P bs) of
         Inl e \<Rightarrow> False
       | Inr out \<Rightarrow> contents out = bs))"

section \<open>A concrete instance of the collaborators\<close>

text \<open>
  To evaluate the operations on concrete inputs the collaborators are instantiated:
  base64url without padding over the alphabet of RFC 4648, section 5, and a JSON codec
  for headers whose values are strings without quotes, commas, colons or whitespace
  (whitespace between the tokens is skipped). The decoder of the raw object stays a
  parameter of the instance. On a nil buffer \<open>base64\<close> is a nil-pointer dereference, as
  a Go method that reads a field of its nil receiver is.
\<close>

definition sextet :: "nat \<Rightarrow> char" where
  "sextet n = b64alphabet ! (n mod 64)"

definition sextetOf :: "char \<Rightarrow> nat option" where
  "sextetOf c =
     (let n = (of_char c :: nat) in
      if 65 \<le> n \<and> n \<le> 90 then Some (n - 65)
      else if 97 \<le> n \<and> n \<le> 122 then Some (n - 71)
      else if 48 \<le> n \<and> n \<le> 57 then Some (n + 4)
      else if c = CHR ''-'' then Some 62
      else if c = CHR ''_'' then Some 63
      else None)"

fun refEncode :: "byte_seq \<Rightarrow> string" where
  "refEncode [] = []"
| "refEncode [a] =
     (let n = (of_char a :: nat) * 16 in [sextet (n div 64), sextet n])"
| "refEncode [a, b] =
     (let n = ((of_char a :: nat) * 256 + of_char b) * 4
      in [sextet (n div 4096), sextet (n div 64), sextet n])"
| "refEncode (a # b # c # rest) =
     (let n = ((of_char a :: nat) * 256 + of_char b) * 256 + of_char c
      in sextet (n div 262144) # sextet (n div 4096) # sextet (n div 64) # sextet n #
         refEncode rest)"

fun refDecodeSextets :: "nat list \<Rightarrow> byte_seq option" where
  "refDecodeSextets [] = Some []"
| "refDecodeSextets [w] = None"
| "refDecodeSextets [w, x] = Some [char_of ((w * 64 + x) div 16)]"
| "refDecodeSextets [w, x, y] =
     (let n = (w * 64 + x) * 64 + y in Some [char_of (n div 1024), char_of (n div 4)])"
| "refDecodeSextets (w # x # y # z # rest) =
     (let n = ((w * 64 + x) * 64 + y) * 64 + z
      in map_option (\<lambda>r. char_of (n div 65536) # char_of (n div 256) # char_of n # r)
           (refDecodeSextets rest))"

definition refDecode :: "string \<Rightarrow> error + byte_slice" where
  "refDecode s =
     (case those (map sextetOf s) of
        None \<Rightarrow> Inl Base64Error
      | Some ns \<Rightarrow>
          (case refDecodeSextets ns of
             None \<Rightarrow> Inl Base64Error
           | Some bs \<Rightarrow> Inr (Some bs)))"

fun joinWith :: "string \<Rightarrow> string list \<Rightarrow> string" where
  "joinWith sep [] = []"
| "joinWith sep [x] = x"
| "joinWith sep (x # y # rest) = x @ sep @ joinWith sep (y # rest)"

definition quoted :: "string \<Rightarrow> string" where
  "quoted s = CHR 0x22 # s @ [CHR 0x22]"

definition unquoted :: "string \<Rightarrow> string option" where
  "unquoted s =
     (case s of
        [] \<Rightarrow> None
      | c # r \<Rightarrow> if c = CHR 0x22 \<and> r \<noteq> [] \<and> last r = CHR 0x22 then Some (butlast r) else None)"

definition refSerializeHeader :: "Header option \<Rightarrow> byte_seq" where
  "refSerializeHeader h =
     (case h of
        None \<Rightarrow> ''null''
      | Some es \<Rightarrow> ''{'' @ joinWith '','' (map (\<lambda>(k, v). quoted k @ '':'' @ quoted v) es) @ ''}'')"

definition refMember :: "string \<Rightarrow> (string \<times> string) option" where
  "refMember e =
     (case splitOn CHR '':'' e of
        [k, v] \<Rightarrow>
          (case (unquoted k, unquoted v) of
             (Some k', Some v') \<Rightarrow> Some (k', v')
           | _ \<Rightarrow> None)
      | _ \<Rightarrow> None)"

definition refUnmarshalHeader :: "byte_seq \<Rightarrow> error + Header option" where
  "refUnmarshalHeader input =
     (let bs = stripWhitespace input in
      if bs = ''null'' then Inr None
      else (case bs of
              [] \<Rightarrow> Inl JSONSyntaxError
            | c # r \<Rightarrow>
                if c = CHR ''{'' \<and> r \<noteq> [] \<and> last r = CHR ''}''
                then (let body = butlast r in
                      if body = [] then Inr (Some [])
                      else (case those (map refMember (splitOn CHR '','' body)) of
                              None \<Rightarrow> Inl JSONSyntaxError
                            | Some es \<Rightarrow> Inr (Some es)))
                else Inl JSONSyntaxError))"

fun refRenderJSON :: "json \<Rightarrow> string" where
  "refRenderJSON (JString s) = quoted s"
| "refRenderJSON (JRaw b) = b"
| "refRenderJSON (JArray xs) = ''['' @ joinWith '','' (map refRenderJSON xs) @ '']''"
| "refRenderJSON (JObject ms) =
     ''{'' @ joinWith '','' (map (\<lambda>m. quoted (fst m) @ '':'' @ refRenderJSON (snd m)) ms) @ ''}''"

definition refPrims :: "(string \<Rightarrow> error + rawJsonWebEncryption) \<Rightarrow> prims" where
  "refPrims decodeRaw =
     \<lparr> base64URLEncode = refEncode,
       base64URLDecode = refDecode,
       serializeHeader = refSerializeHeader,
       unmarshalHeader = refUnmarshalHeader,
       unmarshalRaw = decodeRaw,
       renderJSON = refRenderJSON,
       base64OfNil = Inl NilDereference \<rparr>"

definition noRaw :: "string \<Rightarrow> error + rawJsonWebEncryption" where
  "noRaw s = Inl JSONSyntaxError"

section \<open>Example objects\<close>

text \<open>
  Concrete inputs at which the operations are evaluated: a header with \<open>alg\<close> and \<open>enc\<close>,
  its canonical bytes and the same bytes with a space after the comma; an object that
  was built directly and the objects that the compact parser returns; an object with two
  recipients; an object with all three headers; and texts of the JSON form with the raw
  objects they decode to (a table stands for the JSON decoder of the raw object), one of
  them without a \<open>protected\<close> member.
\<close>

definition jsonTable ::
  "(string \<times> rawJsonWebEncryption) list \<Rightarrow> string \<Rightarrow> error + rawJsonWebEncryption" where
  "jsonTable t s = (case map_of t s of None \<Rightarrow> Inl JSONSyntaxError | Some raw \<Rightarrow> Inr raw)"

definition exampleHeader :: Header where
  "exampleHeader = [(''alg'', ''dir''), (''enc'', ''A128GCM'')]"

definition exampleHeaderBytes :: byte_seq where
  \<open>exampleHeaderBytes = ''{"alg":"dir","enc":"A128GCM"}''\<close>

definition spacedHeaderBytes :: byte_seq where
  \<open>spacedHeaderBytes = ''{"alg":"dir", "enc":"A128GCM"}''\<close>

definition exampleFresh :: JsonWebEncryption where
  "exampleFresh =
     \<lparr> protected = Some exampleHeader, unprotected = None,
       recipients = [\<lparr> header = None, encryptedKey = Some [] \<rparr>],
       aad = None, iv = Some ''abc'', ciphertext = Some ''def'', tag = Some ''ghi'',
       original = None \<rparr>"

definition exampleCompact :: string where
  "exampleCompact = ''eyJhbGciOiJkaXIiLCJlbmMiOiJBMTI4R0NNIn0..YWJj.ZGVm.Z2hp''"

definition spacedCompact :: string where
  "spacedCompact = ''eyJhbGciOiJkaXIiLCAiZW5jIjoiQTEyOEdDTSJ9..YWJj.ZGVm.Z2hp''"

definition parsedFrom :: "byte_seq \<Rightarrow> JsonWebEncryption" where
  "parsedFrom origin =
     \<lparr> protected = Some exampleHeader, unprotected = None,
       recipients = [\<lparr> header = None, encryptedKey = Some [] \<rparr>],
       aad = None, iv = Some ''abc'', ciphertext = Some ''def'', tag = Some ''ghi'',
       original = Some
         \<lparr> Protected = Some (EncodedBuffer (Some origin)),
           Unprotected = None, Header = None, Recipients = [], Aad = None,
           EncryptedKey = Some (EncodedBuffer (Some [])),
           Iv = Some (EncodedBuffer (Some ''abc'')),
           Ciphertext = Some (EncodedBuffer (Some ''def'')),
           Tag = Some (EncodedBuffer (Some ''ghi'')) \<rparr> \<rparr>"

definition exampleTwo :: JsonWebEncryption where
  "exampleTwo =
     \<lparr> protected = Some exampleHeader, unprotected = None,
       recipients = [\<lparr> header = None, encryptedKey = Some ''k1'' \<rparr>,
                     \<lparr> header = Some [(''kid'', ''b'')], encryptedKey = Some ''k2'' \<rparr>],
       aad = None, iv = Some ''abc'', ciphertext = Some ''def'', tag = Some ''ghi'',
       original = None \<rparr>"

definition mergeRecipient :: recipientInfo where
  "mergeRecipient = \<lparr> header = Some [(''alg'', ''RSA-OAEP'')], encryptedKey = Some ''k1'' \<rparr>"

definition mergeExample :: JsonWebEncryption where
  "mergeExample =
     \<lparr> protected = Some exampleHeader,
       unprotected = Some [(''enc'', ''A256GCM''), (''zip'', ''DEF'')],
       recipients = [mergeRecipient],
       aad = None, iv = Some ''abc'', ciphertext = Some ''def'', tag = Some ''ghi'',
       original = None \<rparr>"

definition flatText :: string where
  \<open>flatText = ''{"protected":"eyJhbGciOiJkaXIiLCJlbmMiOiJBMTI4R0NNIn0","iv":"YWJj","ciphertext":"ZGVm","tag":"Z2hp"}''\<close>

definition flatRaw :: rawJsonWebEncryption where
  "flatRaw =
     \<lparr> Protected = Some (EncodedBuffer (Some exampleHeaderBytes)),
       Unprotected = None, Header = None, Recipients = [], Aad = None,
       EncryptedKey = None,
       Iv = Some (EncodedBuffer (Some ''abc'')),
       Ciphertext = Some (EncodedBuffer (Some ''def'')),
       Tag = Some (EncodedBuffer (Some ''ghi'')) \<rparr>"

definition arrayText :: string where
  \<open>arrayText = ''{"protected":"eyJhbGciOiJkaXIiLCJlbmMiOiJBMTI4R0NNIn0","recipients":[{"encrypted_key":"azE"},{"header":{"kid":"b"},"encrypted_key":"azI"}],"iv":"YWJj","ciphertext":"ZGVm","tag":"Z2hp"}''\<close>

definition arrayRaw :: rawJsonWebEncryption where
  "arrayRaw =
     \<lparr> Protected = Some (EncodedBuffer (Some exampleHeaderBytes)),
       Unprotected = None, Header = None,
       Recipients = [\<lparr> RecipientHeader = None, RecipientEncryptedKey = ''azE'' \<rparr>,
                     \<lparr> RecipientHeader = Some [(''kid'', ''b'')], RecipientEncryptedKey = ''azI'' \<rparr>],
       Aad = None, EncryptedKey = None,
       Iv = Some (EncodedBuffer (Some ''abc'')),
       Ciphertext = Some (EncodedBuffer (Some ''def'')),
       Tag = Some (EncodedBuffer (Some ''ghi'')) \<rparr>"

definition noEncText :: string where
  \<open>noEncText = ''{"protected":"eyJ6aXAiOiJERUYifQ","header":{"alg":"dir"},"ciphertext":"ZGVm"}''\<close>

definition noEncRaw :: rawJsonWebEncryption where
  \<open>noEncRaw =
     \<lparr> Protected = Some (EncodedBuffer (Some ''{"zip":"DEF"}'')),
       Unprotected = None, Header = Some [(''alg'', ''dir'')], Recipients = [], Aad = None,
       EncryptedKey = None, Iv = None,
       Ciphertext = Some (EncodedBuffer (Some ''def'')),
       Tag = None \<rparr>\<close>

definition badIvCompact :: string where
  "badIvCompact = ''eyJhbGciOiJkaXIiLCJlbmMiOiJBMTI4R0NNIn0..!.ZGVm.Z2hp''"




section \<open>Auxiliary facts\<close>

subsection \<open>Splitting at the dots\<close>

lemma splitOn_no_sep: "sep \<notin> set a \<Longrightarrow> splitOn sep a = [a]"
  by (induction a) auto

lemma splitOn_append: "sep \<notin> set a \<Longrightarrow> splitOn sep (a @ sep # rest) = a # splitOn sep rest"
  by (induction a) auto

lemma splitOn_five:
  assumes "CHR ''.'' \<notin> set a" "CHR ''.'' \<notin> set b" "CHR ''.'' \<notin> set c"
    "CHR ''.'' \<notin> set d" "CHR ''.'' \<notin> set e"
  shows "splitOn CHR ''.'' (a @ ''.'' @ b @ ''.'' @ c @ ''.'' @ d @ ''.'' @ e) = [a, b, c, d, e]"
  using assms by (simp add: splitOn_append splitOn_no_sep)

subsection \<open>Header merge\<close>

text \<open>The entries of a header are applied one after the other, so the last entry for a key is
  the one that stays; in a mapping each key has one entry.\<close>

lemma map_of_fold_update:
  "map_of (fold (\<lambda>(k, v). AList.update k v) s dst) k =
     (case map_of (rev s) k of None \<Rightarrow> map_of dst k | Some v \<Rightarrow> Some v)"
proof (induction s arbitrary: dst)
  case Nil
  then show ?case by simp
next
  case (Cons e s)
  obtain k' v' where e: "e = (k', v')" by (cases e)
  show ?case
    by (simp add: Cons.IH e update_conv' map_add_def split: option.splits)
qed

lemma distinct_fold_update:
  "distinct (map fst dst) \<Longrightarrow> distinct (map fst (fold (\<lambda>(k, v). AList.update k v) s dst))"
  by (induction s arbitrary: dst) (auto simp: distinct_update)

lemma keys_fold_update:
  "fst ` set (fold (\<lambda>(k, v). AList.update k v) s dst) = fst ` set dst \<union> fst ` set s"
proof (induction s arbitrary: dst)
  case Nil
  then show ?case by simp
next
  case (Cons e s)
  obtain k' v' where e: "e = (k', v')" by (cases e)
  show ?case
    unfolding e by (simp add: Cons.IH dom_update)
qed

lemma map_of_rev_distinct: "distinct (map fst s) \<Longrightarrow> map_of (rev s) = map_of s"
proof (induction s)
  case Nil
  then show ?case by simp
next
  case (Cons e s)
  obtain k v where e: "e = (k, v)" by (cases e)
  from Cons.prems e have notin: "k \<notin> fst ` set s" and d: "distinct (map fst s)" by auto
  from notin have none: "map_of s k = None" by (simp add: map_of_eq_None_iff)
  show ?case
    using none by (auto simp: e Cons.IH [OF d] map_add_def fun_eq_iff split: option.splits)
qed

lemma map_of_merge:
  "distinctKeys src \<Longrightarrow>
   map_of (merge dst src) k = (case entryOf src k of None \<Rightarrow> map_of dst k | Some v \<Rightarrow> Some v)"
  by (cases src) (simp_all add: merge_def entryOf_def distinctKeys_def map_of_fold_update map_of_rev_distinct)

lemma distinct_merge: "distinct (map fst dst) \<Longrightarrow> distinct (map fst (merge dst src))"
  by (cases src) (simp_all add: merge_def distinct_fold_update)

lemma keys_merge:
  "fst ` set (merge dst src) = fst ` set dst \<union> (case src of None \<Rightarrow> {} | Some s \<Rightarrow> fst ` set s)"
  by (cases src) (simp_all add: merge_def keys_fold_update)

lemma mergedHeaders_unfold:
  "mergedHeaders obj recipient =
     merge (merge (merge [] (protected obj)) (unprotected obj)) (headerOf recipient)"
  by (cases recipient) (simp_all add: mergedHeaders_def headerOf_def Let_def merge_def [of _ None])

lemma mergedHeaders_partialObject:
  "mergedHeaders (partialObject parsed prot rs) recipient =
     merge (merge (merge [] prot) (Unprotected parsed)) (headerOf recipient)"
  by (simp add: mergedHeaders_unfold partialObject_def)

lemma Enc_absent:
  assumes "''enc'' \<notin> fst ` set h"
  shows "Enc h = []"
proof -
  from assms have "map_of h ''enc'' = None"
    by (simp only: map_of_eq_None_iff not_False_eq_True)
  then show ?thesis
    by (simp only: Enc_def option.case)
qed

lemma entryOf_None_iff:
  "entryOf h k = None \<longleftrightarrow> (case h of None \<Rightarrow> True | Some es \<Rightarrow> k \<notin> fst ` set es)"
  by (cases h) (simp_all add: entryOf_def map_of_eq_None_iff)

subsection \<open>The parser of the JSON form\<close>

lemma bytes_simps: "bytes None = None" "bytes (Some b) = data b"
  by (simp_all add: bytes_def)

lemma checkAlgEnc_iff:
  "checkAlgEnc obj rs \<longleftrightarrow>
     (\<forall>r \<in> set rs. Alg (mergedHeaders obj (Some r)) \<noteq> [] \<and> Enc (mergedHeaders obj (Some r)) \<noteq> [])"
  by (induction rs) (auto simp: Let_def)

lemma decodeRecipients_Inr:
  "decodeRecipients P rs = Inr out \<Longrightarrow>
     length out = length rs \<and>
     (\<forall>i < length rs.
        header (out ! i) = RecipientHeader (rs ! i) \<and>
        base64URLDecode P (RecipientEncryptedKey (rs ! i)) = Inr (encryptedKey (out ! i)))"
proof (induction rs arbitrary: out)
  case Nil
  then show ?case by simp
next
  case (Cons r rs)
  from Cons.prems obtain k out' where
    k: "base64URLDecode P (RecipientEncryptedKey r) = Inr k"
    and out': "decodeRecipients P rs = Inr out'"
    and out: "out = \<lparr> header = RecipientHeader r, encryptedKey = k \<rparr> # out'"
    by (auto split: sum.splits)
  from Cons.IH [OF out'] show ?case
    by (auto simp: out k nth_Cons split: nat.splits)
qed

lemma decodeRecipients_total:
  "firstError P (map RecipientEncryptedKey rs) = None \<Longrightarrow>
     \<exists>out. decodeRecipients P rs = Inr out"
  by (induction rs) (auto split: sum.splits)

lemma decodeRecipients_fails:
  "firstError P (map RecipientEncryptedKey rs) = Some e \<Longrightarrow> decodeRecipients P rs = Inl e"
  by (induction rs) (auto split: sum.splits)

subsection \<open>The base64url alphabet\<close>

lemma alphabet_no_dot: "c \<in> set b64alphabet \<Longrightarrow> c \<noteq> CHR ''.''"
  by (auto simp: b64alphabet_def)

lemma alphabet_no_brace: "c \<in> set b64alphabet \<Longrightarrow> c \<noteq> CHR ''{''"
  by (auto simp: b64alphabet_def)

lemma alphabet_no_space: "c \<in> set b64alphabet \<Longrightarrow> c \<notin> set whitespace"
  by (auto simp: b64alphabet_def whitespace_def)

lemma dot_no_space: "CHR ''.'' \<notin> set whitespace"
  by (simp add: whitespace_def)

lemma roundTrips_alphabet: "roundTrips P bs \<Longrightarrow> set (base64URLEncode P bs) \<subseteq> set b64alphabet"
  by (auto simp: roundTrips_def list_all_iff)

lemma roundTrips_decode:
  "roundTrips P bs \<Longrightarrow> \<exists>out. base64URLDecode P (base64URLEncode P bs) = Inr out \<and> contents out = bs"
  by (auto simp: roundTrips_def split: sum.splits)

lemma stripWhitespace_id: "(\<forall>c \<in> set s. c \<notin> set whitespace) \<Longrightarrow> stripWhitespace s = s"
  by (simp add: stripWhitespace_def filter_id_conv)

subsection \<open>Authenticated data of a parsed object without protected header\<close>


subsection \<open>The full serialization\<close>

lemma marshalRaw_protected:
  "Protected raw = Some buf \<Longrightarrow>
     map_of (marshalRaw P raw) ''protected'' =
       Some (JString (base64URLEncode P (contents (data buf))))"
  by (simp add: marshalRaw_def memberBuffer_def)

lemma FullSerializeRaw_protected:
  "recipients obj \<noteq> [] \<Longrightarrow>
     \<exists>raw. FullSerializeRaw P obj = Inr raw \<and>
           Protected raw = Some (EncodedBuffer (Some (serializeHeader P (protected obj))))"
  by (cases "recipients obj") (simp_all add: FullSerializeRaw_def Let_def newBuffer_def)

lemma FullSerializeRaw_multi:
  assumes "recipients obj = r0 # r1 # rest"
  shows "FullSerializeRaw P obj =
           Inr \<lparr> Protected = newBuffer (Some (serializeHeader P (protected obj))),
                 Unprotected = unprotected obj,
                 Header = None,
                 Recipients = map (rawRecipient P) (recipients obj),
                 Aad = newBuffer (aad obj),
                 EncryptedKey = newBuffer (encryptedKey r0),
                 Iv = newBuffer (iv obj),
                 Ciphertext = newBuffer (ciphertext obj),
                 Tag = newBuffer (tag obj) \<rparr>"
  using assms by (simp add: FullSerializeRaw_def Let_def)

lemma FullSerializeMembers_multi:
  assumes "recipients obj = r0 # r1 # rest" and "encryptedKey r0 = Some k"
  shows "\<exists>members. FullSerializeMembers P obj = Inr members \<and>
           map_of members ''recipients'' =
             Some (JArray (map (marshalRecipient P \<circ> rawRecipient P) (recipients obj))) \<and>
           map_of members ''header'' = None \<and>
           map_of members ''encrypted_key'' = Some (JString (base64URLEncode P k))"
  using assms
  by (simp add: FullSerializeMembers_def FullSerializeRaw_multi [OF assms(1)] marshalRaw_def
        memberBuffer_def memberHeader_def newBuffer_def contents_def
        split: option.splits)

subsection \<open>Evaluation of the concrete instance\<close>

text \<open>The operations at the example objects, computed by rewriting with the definitions.\<close>

lemmas ref_defs = refPrims_def refDecode_def sextetOf_def sextet_def b64alphabet_def
  refUnmarshalHeader_def refSerializeHeader_def refMember_def quoted_def unquoted_def
  stripWhitespace_def whitespace_def char_of_def bit_0

lemma ser_exampleHeader: "refSerializeHeader (Some exampleHeader) = exampleHeaderBytes"
  by (simp add: refSerializeHeader_def exampleHeader_def exampleHeaderBytes_def quoted_def)

lemma enc_exampleHeader: "refEncode exampleHeaderBytes = ''eyJhbGciOiJkaXIiLCJlbmMiOiJBMTI4R0NNIn0''"
  by (simp add: exampleHeaderBytes_def sextet_def b64alphabet_def)

lemma dec_exampleHeader:
  "refDecode ''eyJhbGciOiJkaXIiLCJlbmMiOiJBMTI4R0NNIn0'' = Inr (Some exampleHeaderBytes)"
  by (simp add: exampleHeaderBytes_def refDecode_def sextetOf_def char_of_def bit_0)

lemma dec_spacedHeader:
  "refDecode ''eyJhbGciOiJkaXIiLCAiZW5jIjoiQTEyOEdDTSJ9'' = Inr (Some spacedHeaderBytes)"
  by (simp add: spacedHeaderBytes_def refDecode_def sextetOf_def char_of_def bit_0)

lemma unm_exampleHeader: "refUnmarshalHeader exampleHeaderBytes = Inr (Some exampleHeader)"
  by (simp add: exampleHeaderBytes_def exampleHeader_def ref_defs)

lemma unm_spacedHeader: "refUnmarshalHeader spacedHeaderBytes = Inr (Some exampleHeader)"
  by (simp add: spacedHeaderBytes_def exampleHeader_def ref_defs)

lemma dec_small:
  "refDecode [] = Inr (Some [])" "refDecode ''YWJj'' = Inr (Some ''abc'')"
  "refDecode ''ZGVm'' = Inr (Some ''def'')" "refDecode ''Z2hp'' = Inr (Some ''ghi'')"
  "refDecode ''azE'' = Inr (Some ''k1'')" "refDecode ''azI'' = Inr (Some ''k2'')"
  by (simp_all add: refDecode_def sextetOf_def char_of_def bit_0)

lemma exampleHeader_alg_enc: "Alg exampleHeader \<noteq> []" "Enc exampleHeader \<noteq> []"
  by (simp_all add: Alg_def Enc_def exampleHeader_def)

lemma parse_exampleCompact:
  "parseEncryptedCompact (refPrims d) exampleCompact = Inr (parsedFrom exampleHeaderBytes)"
proof -
  have s: "splitOn CHR ''.'' exampleCompact =
             [''eyJhbGciOiJkaXIiLCJlbmMiOiJBMTI4R0NNIn0'', [], ''YWJj'', ''ZGVm'', ''Z2hp'']"
    by (simp add: exampleCompact_def)
  show ?thesis
    unfolding parseEncryptedCompact_def s
    using exampleHeader_alg_enc
    by (simp add: refPrims_def dec_exampleHeader unm_exampleHeader dec_small contents_def
          newBuffer_def parsedFrom_def)
qed

lemma parse_spacedCompact:
  "parseEncryptedCompact (refPrims d) spacedCompact = Inr (parsedFrom spacedHeaderBytes)"
proof -
  have s: "splitOn CHR ''.'' spacedCompact =
             [''eyJhbGciOiJkaXIiLCAiZW5jIjoiQTEyOEdDTSJ9'', [], ''YWJj'', ''ZGVm'', ''Z2hp'']"
    by (simp add: spacedCompact_def)
  show ?thesis
    unfolding parseEncryptedCompact_def s
    using exampleHeader_alg_enc
    by (simp add: refPrims_def dec_spacedHeader unm_spacedHeader dec_small contents_def
          newBuffer_def parsedFrom_def)
qed

lemma serialize_exampleFresh:
  "CompactSerialize (refPrims d) exampleFresh = Inr exampleCompact"
  by (simp add: CompactSerialize_def exampleFresh_def refPrims_def ser_exampleHeader
        enc_exampleHeader contents_def exampleCompact_def sextet_def b64alphabet_def)

lemma refPrims_sel:
  "base64URLEncode (refPrims d) = refEncode" "base64URLDecode (refPrims d) = refDecode"
  "serializeHeader (refPrims d) = refSerializeHeader"
  "unmarshalHeader (refPrims d) = refUnmarshalHeader" "unmarshalRaw (refPrims d) = d"
  by (simp_all add: refPrims_def)

lemma unm_raw:
  "unmarshalRaw (refPrims (jsonTable [(t, raw)])) t = Inr raw"
  by (simp add: refPrims_def jsonTable_def)

lemma protected_flat:
  "decodeProtected (refPrims d) flatRaw = Inr (Some exampleHeader)"
  "decodeProtected (refPrims d) arrayRaw = Inr (Some exampleHeader)"
  by (simp_all add: decodeProtected_def flatRaw_def arrayRaw_def bytes_def contents_def refPrims_def
        unm_exampleHeader) (simp_all add: exampleHeaderBytes_def)

lemma protected_noEnc:
  \<open>decodeProtected (refPrims d) noEncRaw = Inr (Some [(''zip'', ''DEF'')])\<close>
  by (simp add: decodeProtected_def noEncRaw_def bytes_def contents_def ref_defs)

lemma merged_exampleHeader:
  "merge (merge (merge [] (Some exampleHeader)) None) None = exampleHeader"
  by (simp add: merge_def exampleHeader_def)

lemma build_array:
  "buildRecipients (refPrims d) arrayRaw =
     Inr [\<lparr> header = None, encryptedKey = Some ''k1'' \<rparr>,
          \<lparr> header = Some [(''kid'', ''b'')], encryptedKey = Some ''k2'' \<rparr>]"
  by (simp add: buildRecipients_def arrayRaw_def refPrims_sel dec_small)

lemma firstError_array:
  "firstError (refPrims d) (map RecipientEncryptedKey (Recipients arrayRaw)) = None"
  by (simp add: arrayRaw_def refPrims_sel dec_small)

lemma flat_ok:
  "r \<in> set [\<lparr> header = None, encryptedKey = None \<rparr>] \<Longrightarrow>
     Alg (mergedHeaders (partialObject flatRaw (Some exampleHeader)
            [\<lparr> header = None, encryptedKey = None \<rparr>]) (Some r)) \<noteq> [] \<and>
     Enc (mergedHeaders (partialObject flatRaw (Some exampleHeader)
            [\<lparr> header = None, encryptedKey = None \<rparr>]) (Some r)) \<noteq> []"
  using exampleHeader_alg_enc
  by (simp add: mergedHeaders_partialObject headerOf_def flatRaw_def merged_exampleHeader)

lemma flat_fields:
  "Recipients flatRaw = []" "Header flatRaw = None" "EncryptedKey flatRaw = None"
  "bytes (Iv flatRaw) = Some ''abc''" "bytes (Ciphertext flatRaw) = Some ''def''"
  "bytes (Tag flatRaw) = Some ''ghi''" "bytes (Aad flatRaw) = None"
  "bytes (EncryptedKey flatRaw) = None"
  by (simp_all add: flatRaw_def bytes_def)

lemma dec_bad: "refDecode ''!'' = Inl Base64Error"
  by (simp add: refDecode_def sextetOf_def)

lemma split_badIv:
  "splitOn CHR ''.'' badIvCompact =
     [''eyJhbGciOiJkaXIiLCJlbmMiOiJBMTI4R0NNIn0'', [], ''!'', ''ZGVm'', ''Z2hp'']"
  by (simp add: badIvCompact_def)

lemma roundTrips_examples:
  "roundTrips (refPrims d) exampleHeaderBytes" "roundTrips (refPrims d) []"
  "roundTrips (refPrims d) ''abc''" "roundTrips (refPrims d) ''def''"
  "roundTrips (refPrims d) ''ghi''"
  by (simp_all add: roundTrips_def refPrims_sel enc_exampleHeader dec_exampleHeader
        dec_small contents_def b64alphabet_def sextet_def)

lemma dispatch_exampleCompact:
  "ParseEncrypted (refPrims d) exampleCompact = parseEncryptedCompact (refPrims d) exampleCompact"
  by (simp add: ParseEncrypted_def Let_def stripWhitespace_def whitespace_def exampleCompact_def)

lemma members_spaced:
  "FullSerializeMembers (refPrims d) (parsedFrom origin) =
     Inr [(''protected'', JString ''eyJhbGciOiJkaXIiLCJlbmMiOiJBMTI4R0NNIn0''),
          (''encrypted_key'', JString []),
          (''iv'', JString ''YWJj''),
          (''ciphertext'', JString ''ZGVm''),
          (''tag'', JString ''Z2hp'')]"
  by (simp add: FullSerializeMembers_def FullSerializeRaw_def parsedFrom_def Let_def newBuffer_def
        marshalRaw_def memberBuffer_def memberHeader_def contents_def refPrims_sel
        ser_exampleHeader enc_exampleHeader sextet_def b64alphabet_def)

lemma enc_spacedHeader:
  "refEncode spacedHeaderBytes = ''eyJhbGciOiJkaXIiLCAiZW5jIjoiQTEyOEdDTSJ9''"
  by (simp add: spacedHeaderBytes_def sextet_def b64alphabet_def)

lemma ser_kid: \<open>refSerializeHeader (Some [(''kid'', ''b'')]) = ''{"kid":"b"}''\<close>
  by (simp add: refSerializeHeader_def quoted_def)





section \<open>The claims\<close>

text \<open>
  Claim C1. For an object with two recipients, the first of which has the key \<open>k1\<close>,
  \<open>FullSerialize\<close> writes the \<open>recipients\<close> array with one entry for each recipient (the
  header of the recipient, if any, and the base64url text of its key) and no top-level
  \<open>header\<close>; it also writes the top-level \<open>encrypted_key\<close>, with the key of the first
  recipient, which the claim says is omitted: the initializer of the raw object sets
  \<open>EncryptedKey\<close> before the number of recipients is looked at.
\<close>

theorem FullSerialize_two_recipients:
  \<open>length (recipients exampleTwo) = 2 \<and>
   FullSerializeMembers (refPrims noRaw) exampleTwo =
     Inr [(''protected'', JString ''eyJhbGciOiJkaXIiLCJlbmMiOiJBMTI4R0NNIn0''),
          (''recipients'',
           JArray [JObject [(''encrypted_key'', JString ''azE'')],
                   JObject [(''header'', JRaw ''{"kid":"b"}''),
                            (''encrypted_key'', JString ''azI'')]]),
          (''encrypted_key'', JString ''azE''),
          (''iv'', JString ''YWJj''),
          (''ciphertext'', JString ''ZGVm''),
          (''tag'', JString ''Z2hp'')]\<close>
  by (simp add: FullSerializeMembers_def FullSerializeRaw_def exampleTwo_def Let_def newBuffer_def
        marshalRaw_def marshalRecipient_def rawRecipient_def memberBuffer_def memberHeader_def
        contents_def refPrims_sel ser_exampleHeader enc_exampleHeader sextet_def b64alphabet_def
        ser_kid)


text \<open>On every other object \<open>computeAuthData\<close> returns what the claim says: the canonical
  serialization of the protected header for an object that was not parsed, the retained
  origin bytes for a parsed object that has them, and the dot and the base64url text of
  \<open>aad\<close> only if \<open>aad\<close> is present.\<close>

theorem computeAuthData_exact:
  "(original obj = None \<longrightarrow>
      computeAuthData P obj =
        Inr (base64URLEncode P (serializeHeader P (protected obj)) @
             (case aad obj of None \<Rightarrow> [] | Some a \<Rightarrow> ''.'' @ base64URLEncode P a)))
   \<and> (original obj = Some raw \<and> Protected raw = Some buf \<longrightarrow>
      computeAuthData P obj =
        Inr (base64URLEncode P (contents (data buf)) @
             (case aad obj of None \<Rightarrow> [] | Some a \<Rightarrow> ''.'' @ base64URLEncode P a)))
   \<and> (original obj = Some raw \<and> Protected raw = Some buf \<and> aad obj = None \<longrightarrow>
      computeAuthData P obj = Inr (base64URLEncode P (contents (data buf))))"
  by (simp add: computeAuthData_def base64_def split: option.splits)

theorem computeAuthData_exact_witness:
  "aad (parsedFrom exampleHeaderBytes) = None \<and>
   computeAuthData (refPrims noRaw) (parsedFrom exampleHeaderBytes) =
     Inr ''eyJhbGciOiJkaXIiLCJlbmMiOiJBMTI4R0NNIn0'' \<and>
   original (exampleFresh \<lparr> aad := Some ''extra'' \<rparr>) = None \<and>
   computeAuthData (refPrims noRaw) (exampleFresh \<lparr> aad := Some ''extra'' \<rparr>) =
     Inr ''eyJhbGciOiJkaXIiLCJlbmMiOiJBMTI4R0NNIn0.ZXh0cmE''"
proof -
  have enc: "base64URLEncode (refPrims noRaw) exampleHeaderBytes =
               ''eyJhbGciOiJkaXIiLCJlbmMiOiJBMTI4R0NNIn0''"
    by (simp add: refPrims_def enc_exampleHeader)
  have extra: "base64URLEncode (refPrims noRaw) ''extra'' = ''ZXh0cmE''"
    by (simp add: refPrims_def sextet_def b64alphabet_def)
  have ser: "serializeHeader (refPrims noRaw) (Some exampleHeader) = exampleHeaderBytes"
    by (simp add: refPrims_def ser_exampleHeader)
  show ?thesis
    using computeAuthData_exact [of "parsedFrom exampleHeaderBytes" "refPrims noRaw"
            "the (original (parsedFrom exampleHeaderBytes))"
            "EncodedBuffer (Some exampleHeaderBytes)"]
          computeAuthData_exact [of "exampleFresh \<lparr> aad := Some ''extra'' \<rparr>" "refPrims noRaw"]
    by (simp add: parsedFrom_def exampleFresh_def contents_def enc extra ser)
qed

text \<open>
  Claim C3, amended. For a parsed object whose origin bytes of the protected header are
  present, \<open>computeAuthData\<close> uses those bytes as they are; an object that was not parsed
  has its protected header serialized canonically. The full JSON serialization does not
  echo the origin bytes: for every object, parsed or not, its \<open>protected\<close> member is the
  base64url text of the canonical serialization of the protected header.
\<close>

theorem origin_bytes_for_aad_only:
  "(original obj = Some raw \<and> Protected raw = Some buf \<longrightarrow>
      computeAuthData P obj =
        Inr (base64URLEncode P (contents (data buf)) @
             (case aad obj of None \<Rightarrow> [] | Some a \<Rightarrow> ''.'' @ base64URLEncode P a)))
   \<and> (original obj = None \<longrightarrow>
      computeAuthData P obj =
        Inr (base64URLEncode P (serializeHeader P (protected obj)) @
             (case aad obj of None \<Rightarrow> [] | Some a \<Rightarrow> ''.'' @ base64URLEncode P a)))
   \<and> (recipients obj \<noteq> [] \<longrightarrow>
      (\<exists>members. FullSerializeMembers P obj = Inr members \<and>
         map_of members ''protected'' =
           Some (JString (base64URLEncode P (serializeHeader P (protected obj))))))"
proof -
  have a: "original obj = Some raw \<and> Protected raw = Some buf \<longrightarrow>
      computeAuthData P obj =
        Inr (base64URLEncode P (contents (data buf)) @
             (case aad obj of None \<Rightarrow> [] | Some a \<Rightarrow> ''.'' @ base64URLEncode P a))"
    by (simp add: computeAuthData_def base64_def split: option.splits)
  have b: "original obj = None \<longrightarrow>
      computeAuthData P obj =
        Inr (base64URLEncode P (serializeHeader P (protected obj)) @
             (case aad obj of None \<Rightarrow> [] | Some a \<Rightarrow> ''.'' @ base64URLEncode P a))"
    by (simp add: computeAuthData_def split: option.splits)
  have c: "\<exists>members. FullSerializeMembers P obj = Inr members \<and>
         map_of members ''protected'' =
           Some (JString (base64URLEncode P (serializeHeader P (protected obj))))"
    if "recipients obj \<noteq> []"
  proof -
    from FullSerializeRaw_protected [OF that] obtain r where
      r: "FullSerializeRaw P obj = Inr r"
      and p: "Protected r = Some (EncodedBuffer (Some (serializeHeader P (protected obj))))"
      by blast
    from marshalRaw_protected [OF p, of P] r show ?thesis
      by (simp add: FullSerializeMembers_def contents_def)
  qed
  from a b c show ?thesis by blast
qed

text \<open>The claim as it was stated fails: the object parsed from a compact text whose
  protected header has a space after the comma keeps those bytes and authenticates them,
  and \<open>FullSerialize\<close> writes the protected header without the space.\<close>

theorem origin_bytes_echo_counterexample:
  "parseEncryptedCompact (refPrims noRaw) spacedCompact = Inr (parsedFrom spacedHeaderBytes)
   \<and> original (parsedFrom spacedHeaderBytes) \<noteq> None
   \<and> Protected (the (original (parsedFrom spacedHeaderBytes))) =
        Some (EncodedBuffer (Some spacedHeaderBytes))
   \<and> base64URLEncode (refPrims noRaw) spacedHeaderBytes =
        ''eyJhbGciOiJkaXIiLCAiZW5jIjoiQTEyOEdDTSJ9''
   \<and> computeAuthData (refPrims noRaw) (parsedFrom spacedHeaderBytes) =
        Inr ''eyJhbGciOiJkaXIiLCAiZW5jIjoiQTEyOEdDTSJ9''
   \<and> FullSerializeMembers (refPrims noRaw) (parsedFrom spacedHeaderBytes) =
        Inr [(''protected'', JString ''eyJhbGciOiJkaXIiLCJlbmMiOiJBMTI4R0NNIn0''),
             (''encrypted_key'', JString []),
             (''iv'', JString ''YWJj''),
             (''ciphertext'', JString ''ZGVm''),
             (''tag'', JString ''Z2hp'')]
   \<and> ''eyJhbGciOiJkaXIiLCJlbmMiOiJBMTI4R0NNIn0'' \<noteq> ''eyJhbGciOiJkaXIiLCAiZW5jIjoiQTEyOEdDTSJ9''"
proof -
  have e: "base64URLEncode (refPrims noRaw) spacedHeaderBytes =
             ''eyJhbGciOiJkaXIiLCAiZW5jIjoiQTEyOEdDTSJ9''"
    by (simp add: refPrims_sel enc_spacedHeader)
  have o: "original (parsedFrom spacedHeaderBytes) \<noteq> None"
    "Protected (the (original (parsedFrom spacedHeaderBytes))) =
        Some (EncodedBuffer (Some spacedHeaderBytes))"
    "aad (parsedFrom spacedHeaderBytes) = None"
    by (simp_all add: parsedFrom_def)
  have a: "computeAuthData (refPrims noRaw) (parsedFrom spacedHeaderBytes) =
        Inr ''eyJhbGciOiJkaXIiLCAiZW5jIjoiQTEyOEdDTSJ9''"
    using o e by (auto simp: computeAuthData_def base64_def contents_def split: option.splits)
  have n: "''eyJhbGciOiJkaXIiLCJlbmMiOiJBMTI4R0NNIn0'' \<noteq> ''eyJhbGciOiJkaXIiLCAiZW5jIjoiQTEyOEdDTSJ9''"
    by simp
  from parse_spacedCompact [of noRaw] o(1,2) e a members_spaced [of noRaw spacedHeaderBytes] n
  show ?thesis by blast
qed

theorem origin_bytes_for_aad_only_witness:
  "original (parsedFrom spacedHeaderBytes) =
     Some (the (original (parsedFrom spacedHeaderBytes))) \<and>
   Protected (the (original (parsedFrom spacedHeaderBytes))) =
     Some (EncodedBuffer (Some spacedHeaderBytes)) \<and>
   computeAuthData (refPrims noRaw) (parsedFrom spacedHeaderBytes) =
     Inr ''eyJhbGciOiJkaXIiLCAiZW5jIjoiQTEyOEdDTSJ9'' \<and>
   recipients (parsedFrom spacedHeaderBytes) \<noteq> [] \<and>
   map_of (projr (FullSerializeMembers (refPrims noRaw) (parsedFrom spacedHeaderBytes))) ''protected'' =
     Some (JString ''eyJhbGciOiJkaXIiLCJlbmMiOiJBMTI4R0NNIn0'') \<and>
   original exampleFresh = None \<and>
   computeAuthData (refPrims noRaw) exampleFresh = Inr ''eyJhbGciOiJkaXIiLCJlbmMiOiJBMTI4R0NNIn0''"
proof -
  let ?P = "refPrims noRaw"
  let ?obj = "parsedFrom spacedHeaderBytes"
  have o: "original ?obj = Some (the (original ?obj))"
    "Protected (the (original ?obj)) = Some (EncodedBuffer (Some spacedHeaderBytes))"
    "aad ?obj = None" "recipients ?obj \<noteq> []" "protected ?obj = Some exampleHeader"
    by (simp_all add: parsedFrom_def)
  have f: "original exampleFresh = None" "aad exampleFresh = None"
    "protected exampleFresh = Some exampleHeader"
    by (simp_all add: exampleFresh_def)
  have e: "base64URLEncode ?P spacedHeaderBytes = ''eyJhbGciOiJkaXIiLCAiZW5jIjoiQTEyOEdDTSJ9''"
    "base64URLEncode ?P (serializeHeader ?P (Some exampleHeader)) =
       ''eyJhbGciOiJkaXIiLCJlbmMiOiJBMTI4R0NNIn0''"
    by (simp_all add: refPrims_sel enc_spacedHeader ser_exampleHeader enc_exampleHeader)
  note T = origin_bytes_for_aad_only [where P = ?P and obj = ?obj
      and raw = "the (original ?obj)" and buf = "EncodedBuffer (Some spacedHeaderBytes)"]
  note F = origin_bytes_for_aad_only [where P = ?P and obj = exampleFresh]
  from T [THEN conjunct1] o(1,2,3) e(1)
  have c1: "computeAuthData ?P ?obj = Inr ''eyJhbGciOiJkaXIiLCAiZW5jIjoiQTEyOEdDTSJ9''"
    by (simp add: contents_def)
  from T [THEN conjunct2, THEN conjunct2] o(4,5) e(2)
  have c3: "map_of (projr (FullSerializeMembers ?P ?obj)) ''protected'' =
     Some (JString ''eyJhbGciOiJkaXIiLCJlbmMiOiJBMTI4R0NNIn0'')"
    by auto
  from F [THEN conjunct2, THEN conjunct1] f e(2)
  have c2: "computeAuthData ?P exampleFresh = Inr ''eyJhbGciOiJkaXIiLCJlbmMiOiJBMTI4R0NNIn0''"
    by simp
  from o(1,2,4) c1 c3 f(1) c2 show ?thesis by blast
qed

text \<open>
  Claim C4. For an object with exactly one recipient, no unprotected header and no
  header of the recipient, whose protected header has \<open>alg\<close> and \<open>enc\<close>, \<open>CompactSerialize\<close>
  returns a text which \<open>ParseEncrypted\<close> parses to an object with one recipient and the same
  merged header, \<open>iv\<close>, \<open>ciphertext\<close>, \<open>tag\<close> and encrypted key. The collaborators are
  asked to round-trip at the values of this object: the header through its JSON codec,
  and the five byte sequences through base64url.
\<close>

theorem compact_roundtrip:
  assumes shape: "recipients obj = [r]" "unprotected obj = None" "header r = None"
    and hdr: "protected obj = Some h" "Alg h \<noteq> []" "Enc h \<noteq> []"
    and json: "unmarshalHeader P (serializeHeader P (Some h)) = Inr (Some h)"
    and b64: "roundTrips P (serializeHeader P (Some h))"
             "roundTrips P (contents (encryptedKey r))"
             "roundTrips P (contents (iv obj))"
             "roundTrips P (contents (ciphertext obj))"
             "roundTrips P (contents (tag obj))"
  shows "\<exists>text obj' r'.
           CompactSerialize P obj = Inr text \<and>
           ParseEncrypted P text = Inr obj' \<and>
           recipients obj' = [r'] \<and>
           mergedHeaders obj' (Some r') = mergedHeaders obj (Some r) \<and>
           contents (iv obj') = contents (iv obj) \<and>
           contents (ciphertext obj') = contents (ciphertext obj) \<and>
           contents (tag obj') = contents (tag obj) \<and>
           contents (encryptedKey r') = contents (encryptedKey r)"
proof -
  let ?e0 = "base64URLEncode P (serializeHeader P (Some h))"
  let ?e1 = "base64URLEncode P (contents (encryptedKey r))"
  let ?e2 = "base64URLEncode P (contents (iv obj))"
  let ?e3 = "base64URLEncode P (contents (ciphertext obj))"
  let ?e4 = "base64URLEncode P (contents (tag obj))"
  let ?text = "?e0 @ ''.'' @ ?e1 @ ''.'' @ ?e2 @ ''.'' @ ?e3 @ ''.'' @ ?e4"
  have ser: "CompactSerialize P obj = Inr ?text"
    using shape hdr by (simp add: CompactSerialize_def)
  note al = roundTrips_alphabet [OF b64(1)] roundTrips_alphabet [OF b64(2)]
    roundTrips_alphabet [OF b64(3)] roundTrips_alphabet [OF b64(4)] roundTrips_alphabet [OF b64(5)]
  have nodot: "CHR ''.'' \<notin> set ?e0" "CHR ''.'' \<notin> set ?e1" "CHR ''.'' \<notin> set ?e2"
    "CHR ''.'' \<notin> set ?e3" "CHR ''.'' \<notin> set ?e4"
    using al alphabet_no_dot by blast+
  have split: "splitOn CHR ''.'' ?text = [?e0, ?e1, ?e2, ?e3, ?e4]"
    by (rule splitOn_five [OF nodot])
  have chars: "\<forall>c \<in> set ?text. c \<in> set b64alphabet \<or> c = CHR ''.''"
    using al by auto
  have strip: "stripWhitespace ?text = ?text"
  proof (rule stripWhitespace_id, rule ballI)
    fix c assume "c \<in> set ?text"
    with chars have "c \<in> set b64alphabet \<or> c = CHR ''.''" by blast
    then show "c \<notin> set whitespace"
      using alphabet_no_space dot_no_space by blast
  qed
  have brace: "take 1 ?text \<noteq> ''{''"
  proof (cases ?e0)
    case Nil
    then show ?thesis by simp
  next
    case (Cons c cs)
    then have "c \<in> set b64alphabet" using al(1) by auto
    then have "c \<noteq> CHR ''{''" by (rule alphabet_no_brace)
    with Cons show ?thesis by simp
  qed
  have dispatch: "ParseEncrypted P ?text = parseEncryptedCompact P ?text"
    using strip brace by (simp add: ParseEncrypted_def Let_def)
  from roundTrips_decode [OF b64(1)] obtain o0 where
    d0: "base64URLDecode P ?e0 = Inr o0" and c0: "contents o0 = serializeHeader P (Some h)" by blast
  from roundTrips_decode [OF b64(2)] obtain o1 where
    d1: "base64URLDecode P ?e1 = Inr o1" and c1: "contents o1 = contents (encryptedKey r)" by blast
  from roundTrips_decode [OF b64(3)] obtain o2 where
    d2: "base64URLDecode P ?e2 = Inr o2" and c2: "contents o2 = contents (iv obj)" by blast
  from roundTrips_decode [OF b64(4)] obtain o3 where
    d3: "base64URLDecode P ?e3 = Inr o3" and c3: "contents o3 = contents (ciphertext obj)" by blast
  from roundTrips_decode [OF b64(5)] obtain o4 where
    d4: "base64URLDecode P ?e4 = Inr o4" and c4: "contents o4 = contents (tag obj)" by blast
  define obj' where "obj' =
     \<lparr> protected = Some h, unprotected = None,
       recipients = [\<lparr> header = None, encryptedKey = o1 \<rparr>],
       aad = None, iv = o2, ciphertext = o3, tag = o4,
       original = Some
         \<lparr> Protected = newBuffer o0, Unprotected = None, Header = None, Recipients = [],
           Aad = None, EncryptedKey = newBuffer o1, Iv = newBuffer o2,
           Ciphertext = newBuffer o3, Tag = newBuffer o4 \<rparr> \<rparr>"
  have parse: "parseEncryptedCompact P ?text = Inr obj'"
    unfolding parseEncryptedCompact_def split
    using hdr(2,3) by (simp add: d0 c0 json d1 d2 d3 d4 obj'_def)
  have merged: "mergedHeaders obj' (Some \<lparr> header = None, encryptedKey = o1 \<rparr>) =
                mergedHeaders obj (Some r)"
    using shape hdr(1) by (simp add: mergedHeaders_unfold headerOf_def obj'_def)
  show ?thesis
    using ser dispatch parse merged c1 c2 c3 c4
    by (intro exI [of _ ?text] exI [of _ obj'] exI [of _ "\<lparr> header = None, encryptedKey = o1 \<rparr>"])
       (simp add: obj'_def)
qed

theorem compact_roundtrip_witness:
  "recipients exampleFresh = [\<lparr> header = None, encryptedKey = Some [] \<rparr>] \<and>
   unprotected exampleFresh = None \<and>
   protected exampleFresh = Some exampleHeader \<and>
   Alg exampleHeader \<noteq> [] \<and> Enc exampleHeader \<noteq> [] \<and>
   unmarshalHeader (refPrims noRaw) (serializeHeader (refPrims noRaw) (Some exampleHeader)) =
     Inr (Some exampleHeader) \<and>
   roundTrips (refPrims noRaw) (serializeHeader (refPrims noRaw) (Some exampleHeader)) \<and>
   roundTrips (refPrims noRaw) (contents (iv exampleFresh)) \<and>
   roundTrips (refPrims noRaw) (contents (ciphertext exampleFresh)) \<and>
   roundTrips (refPrims noRaw) (contents (tag exampleFresh)) \<and>
   CompactSerialize (refPrims noRaw) exampleFresh = Inr exampleCompact \<and>
   ParseEncrypted (refPrims noRaw) exampleCompact = Inr (parsedFrom exampleHeaderBytes) \<and>
   mergedHeaders (parsedFrom exampleHeaderBytes) (Some \<lparr> header = None, encryptedKey = Some [] \<rparr>) =
     mergedHeaders exampleFresh (Some \<lparr> header = None, encryptedKey = Some [] \<rparr>) \<and>
   contents (iv (parsedFrom exampleHeaderBytes)) = contents (iv exampleFresh)"
proof -
  let ?P = "refPrims noRaw"
  let ?r = "\<lparr> header = None, encryptedKey = Some [] \<rparr>"
  have shape: "recipients exampleFresh = [?r]" "unprotected exampleFresh = None" "header ?r = None"
    "protected exampleFresh = Some exampleHeader"
    by (simp_all add: exampleFresh_def)
  have ser: "serializeHeader ?P (Some exampleHeader) = exampleHeaderBytes"
    by (simp add: refPrims_sel ser_exampleHeader)
  have json: "unmarshalHeader ?P (serializeHeader ?P (Some exampleHeader)) = Inr (Some exampleHeader)"
    by (simp add: ser) (simp add: refPrims_sel unm_exampleHeader)
  have fields: "contents (encryptedKey ?r) = []" "contents (iv exampleFresh) = ''abc''"
    "contents (ciphertext exampleFresh) = ''def''" "contents (tag exampleFresh) = ''ghi''"
    by (simp_all add: exampleFresh_def contents_def)
  have rt: "roundTrips ?P (serializeHeader ?P (Some exampleHeader))"
    "roundTrips ?P (contents (encryptedKey ?r))" "roundTrips ?P (contents (iv exampleFresh))"
    "roundTrips ?P (contents (ciphertext exampleFresh))" "roundTrips ?P (contents (tag exampleFresh))"
    by (simp_all only: ser fields roundTrips_examples)
  from compact_roundtrip [OF shape(1,2,3,4) exampleHeader_alg_enc json rt]
  obtain out obj' r' where
    t: "CompactSerialize ?P exampleFresh = Inr out"
    and p: "ParseEncrypted ?P out = Inr obj'"
    and r: "recipients obj' = [r']"
    and m: "mergedHeaders obj' (Some r') = mergedHeaders exampleFresh (Some ?r)"
    and i: "contents (iv obj') = contents (iv exampleFresh)"
    by blast
  from t have out: "out = exampleCompact" by (simp add: serialize_exampleFresh)
  have parsed: "ParseEncrypted ?P exampleCompact = Inr (parsedFrom exampleHeaderBytes)"
    by (simp add: dispatch_exampleCompact parse_exampleCompact)
  with p out have obj': "obj' = parsedFrom exampleHeaderBytes" by simp
  with r have r': "r' = ?r" by (simp add: parsedFrom_def)
  from shape exampleHeader_alg_enc json rt serialize_exampleFresh [of noRaw] parsed
    m [unfolded obj' r'] i [unfolded obj']
  show ?thesis by simp
qed

text \<open>
  Claim C5. \<open>CompactSerialize\<close> returns \<open>ErrNotSupported\<close> exactly when there is more than
  one recipient, or the unprotected header is present, or the sole recipient has a header;
  for one recipient without a header and no unprotected header it returns the five
  base64url segments joined by dots.
\<close>

theorem CompactSerialize_shape:
  "(CompactSerialize P obj = Inl ErrNotSupported \<longleftrightarrow>
      length (recipients obj) > 1 \<or> unprotected obj \<noteq> None \<or>
      (\<exists>r. recipients obj = [r] \<and> header r \<noteq> None))
   \<and> (recipients obj = [r] \<and> unprotected obj = None \<and> header r = None \<longrightarrow>
      CompactSerialize P obj =
        Inr (base64URLEncode P (serializeHeader P (protected obj)) @ ''.'' @
             base64URLEncode P (contents (encryptedKey r)) @ ''.'' @
             base64URLEncode P (contents (iv obj)) @ ''.'' @
             base64URLEncode P (contents (ciphertext obj)) @ ''.'' @
             base64URLEncode P (contents (tag obj))))"
  by (cases "recipients obj") (auto simp: CompactSerialize_def)

theorem CompactSerialize_shape_witness:
  "recipients exampleFresh = [\<lparr> header = None, encryptedKey = Some [] \<rparr>] \<and>
   unprotected exampleFresh = None \<and>
   CompactSerialize (refPrims noRaw) exampleFresh = Inr exampleCompact \<and>
   length (recipients exampleTwo) > 1 \<and>
   CompactSerialize (refPrims noRaw) exampleTwo = Inl ErrNotSupported"
proof -
  have enc: "base64URLEncode (refPrims noRaw) exampleHeaderBytes =
               ''eyJhbGciOiJkaXIiLCJlbmMiOiJBMTI4R0NNIn0''"
    by (simp add: refPrims_def enc_exampleHeader)
  have small: "base64URLEncode (refPrims noRaw) [] = []"
    "base64URLEncode (refPrims noRaw) ''abc'' = ''YWJj''"
    "base64URLEncode (refPrims noRaw) ''def'' = ''ZGVm''"
    "base64URLEncode (refPrims noRaw) ''ghi'' = ''Z2hp''"
    by (simp_all add: refPrims_def sextet_def b64alphabet_def)
  have ser: "serializeHeader (refPrims noRaw) (Some exampleHeader) = exampleHeaderBytes"
    by (simp add: refPrims_def ser_exampleHeader)
  show ?thesis
    using CompactSerialize_shape [of "refPrims noRaw" exampleFresh
            "\<lparr> header = None, encryptedKey = Some [] \<rparr>"]
          CompactSerialize_shape [of "refPrims noRaw" exampleTwo]
    by (simp add: exampleFresh_def exampleTwo_def exampleCompact_def contents_def enc small ser)
qed

text \<open>
  Claim C6. In the parser of the JSON form, once the raw object is decoded, the protected
  header is decoded and the recipients are built, the result is \<open>MissingAlgEnc\<close> exactly
  when some recipient's merged header (protected, then unprotected, then that recipient's
  header) has an absent or empty \<open>alg\<close> or \<open>enc\<close>. In particular, when the protected header
  has no \<open>enc\<close> and neither the unprotected header nor the header of a recipient supplies
  one, parsing fails with \<open>MissingAlgEnc\<close>, whatever supplies \<open>alg\<close>.
\<close>

theorem full_missing_alg_enc:
  assumes "unmarshalRaw P input = Inr parsed"
      and "decodeProtected P parsed = Inr prot"
      and "buildRecipients P parsed = Inr rs"
  shows "(parseEncryptedFull P input = Inl MissingAlgEnc \<longleftrightarrow>
            (\<exists>r \<in> set rs. Alg (mergedHeaders (partialObject parsed prot rs) (Some r)) = [] \<or>
                          Enc (mergedHeaders (partialObject parsed prot rs) (Some r)) = []))
         \<and> (r \<in> set rs \<and> entryOf prot ''enc'' = None \<and>
              entryOf (Unprotected parsed) ''enc'' = None \<and>
              entryOf (header r) ''enc'' = None \<longrightarrow>
              parseEncryptedFull P input = Inl MissingAlgEnc)"
proof -
  let ?obj = "partialObject parsed prot rs"
  have rec: "recipients ?obj = rs" by (simp add: partialObject_def)
  have main: "parseEncryptedFull P input = Inl MissingAlgEnc \<longleftrightarrow>
            (\<exists>r \<in> set rs. Alg (mergedHeaders ?obj (Some r)) = [] \<or> Enc (mergedHeaders ?obj (Some r)) = [])"
    using assms by (auto simp: parseEncryptedFull_def Let_def rec checkAlgEnc_iff)
  have inst: "parseEncryptedFull P input = Inl MissingAlgEnc"
    if r: "r \<in> set rs" and p: "entryOf prot ''enc'' = None"
      and u: "entryOf (Unprotected parsed) ''enc'' = None" and h: "entryOf (header r) ''enc'' = None"
  proof -
    have "''enc'' \<notin> fst ` set (mergedHeaders ?obj (Some r))"
      using p u h
      by (auto simp: mergedHeaders_partialObject keys_merge headerOf_def entryOf_None_iff
               split: option.splits)
    then have "Enc (mergedHeaders ?obj (Some r)) = []" by (rule Enc_absent)
    with r main show ?thesis by blast
  qed
  from main inst show ?thesis by blast
qed

theorem full_missing_alg_enc_witness:
  "unmarshalRaw (refPrims (jsonTable [(noEncText, noEncRaw)])) noEncText = Inr noEncRaw \<and>
   decodeProtected (refPrims (jsonTable [(noEncText, noEncRaw)])) noEncRaw =
     Inr (Some [(''zip'', ''DEF'')]) \<and>
   buildRecipients (refPrims (jsonTable [(noEncText, noEncRaw)])) noEncRaw =
     Inr [\<lparr> header = Some [(''alg'', ''dir'')], encryptedKey = None \<rparr>] \<and>
   parseEncryptedFull (refPrims (jsonTable [(noEncText, noEncRaw)])) noEncText = Inl MissingAlgEnc"
proof -
  let ?P = "refPrims (jsonTable [(noEncText, noEncRaw)])"
  let ?r = "\<lparr> header = Some [(''alg'', ''dir'')], encryptedKey = None \<rparr>"
  have b: "buildRecipients ?P noEncRaw = Inr [?r]"
    by (simp add: buildRecipients_def noEncRaw_def bytes_def)
  have e: "entryOf (Some [(''zip'', ''DEF'')]) ''enc'' = None"
    "entryOf (Unprotected noEncRaw) ''enc'' = None" "entryOf (header ?r) ''enc'' = None"
    by (simp_all add: entryOf_def noEncRaw_def)
  from full_missing_alg_enc [OF unm_raw protected_noEnc b, of ?r] e
  show ?thesis
    by (simp add: unm_raw protected_noEnc b)
qed

text \<open>
  Claim C7, amended. The compact parser splits its input at the dots and fails with
  \<open>MalformedCompact\<close> when there are not exactly five segments. With five segments the
  checks come in this order, and the first that fails gives the error: the base64url
  decoding of the first segment (the error of the decoder), the JSON decoding of the
  protected header (the error of the JSON decoder), the presence of \<open>alg\<close> and \<open>enc\<close>
  (\<open>MissingAlgEnc\<close>), and the base64url decoding of the second to fifth segment (the error
  of the decoder at the first of them that it rejects). So a segment that is not
  base64url always makes the parse fail, with the error of the decoder when it is the
  first segment or when the header decodes and has \<open>alg\<close> and \<open>enc\<close>, and with the error of
  the header step otherwise. \<open>ParseEncrypted\<close> hands the whitespace-stripped input to the
  compact parser unless it starts with a brace.
\<close>

theorem compact_segments:
  "(length (splitOn CHR ''.'' input) \<noteq> 5 \<longrightarrow>
      parseEncryptedCompact P input = Inl MalformedCompact)
   \<and> (splitOn CHR ''.'' input = [p0, p1, p2, p3, p4] \<and> base64URLDecode P p0 = Inl e \<longrightarrow>
      parseEncryptedCompact P input = Inl e)
   \<and> (splitOn CHR ''.'' input = [p0, p1, p2, p3, p4] \<and>
      base64URLDecode P p0 = Inr rawProtected \<and>
      unmarshalHeader P (contents rawProtected) = Inl e \<longrightarrow>
      parseEncryptedCompact P input = Inl e)
   \<and> (splitOn CHR ''.'' input = [p0, p1, p2, p3, p4] \<and>
      base64URLDecode P p0 = Inr rawProtected \<and>
      unmarshalHeader P (contents rawProtected) = Inr decoded \<and>
      (Alg (case decoded of None \<Rightarrow> [] | Some h \<Rightarrow> h) = [] \<or>
       Enc (case decoded of None \<Rightarrow> [] | Some h \<Rightarrow> h) = []) \<longrightarrow>
      parseEncryptedCompact P input = Inl MissingAlgEnc)
   \<and> (splitOn CHR ''.'' input = [p0, p1, p2, p3, p4] \<and>
      base64URLDecode P p0 = Inr rawProtected \<and>
      unmarshalHeader P (contents rawProtected) = Inr decoded \<and>
      Alg (case decoded of None \<Rightarrow> [] | Some h \<Rightarrow> h) \<noteq> [] \<and>
      Enc (case decoded of None \<Rightarrow> [] | Some h \<Rightarrow> h) \<noteq> [] \<and>
      firstError P [p1, p2, p3, p4] = Some e \<longrightarrow>
      parseEncryptedCompact P input = Inl e)
   \<and> (splitOn CHR ''.'' input = [p0, p1, p2, p3, p4] \<and>
      firstError P [p0, p1, p2, p3, p4] \<noteq> None \<longrightarrow>
      (\<exists>err. parseEncryptedCompact P input = Inl err))
   \<and> (take 1 (stripWhitespace s) \<noteq> ''{'' \<longrightarrow>
      ParseEncrypted P s = parseEncryptedCompact P (stripWhitespace s))"
proof -
  have count: "length (splitOn CHR ''.'' input) \<noteq> 5 \<longrightarrow>
      parseEncryptedCompact P input = Inl MalformedCompact"
    by (auto simp: parseEncryptedCompact_def split: list.splits)
  have first: "splitOn CHR ''.'' input = [p0, p1, p2, p3, p4] \<and> base64URLDecode P p0 = Inl e \<longrightarrow>
      parseEncryptedCompact P input = Inl e"
    by (simp add: parseEncryptedCompact_def)
  have json: "splitOn CHR ''.'' input = [p0, p1, p2, p3, p4] \<and>
      base64URLDecode P p0 = Inr rawProtected \<and>
      unmarshalHeader P (contents rawProtected) = Inl e \<longrightarrow>
      parseEncryptedCompact P input = Inl e"
    by (simp add: parseEncryptedCompact_def)
  have missing: "splitOn CHR ''.'' input = [p0, p1, p2, p3, p4] \<and>
      base64URLDecode P p0 = Inr rawProtected \<and>
      unmarshalHeader P (contents rawProtected) = Inr decoded \<and>
      (Alg (case decoded of None \<Rightarrow> [] | Some h \<Rightarrow> h) = [] \<or>
       Enc (case decoded of None \<Rightarrow> [] | Some h \<Rightarrow> h) = []) \<longrightarrow>
      parseEncryptedCompact P input = Inl MissingAlgEnc"
    by (auto simp: parseEncryptedCompact_def Let_def)
  have later: "splitOn CHR ''.'' input = [p0, p1, p2, p3, p4] \<and>
      base64URLDecode P p0 = Inr rawProtected \<and>
      unmarshalHeader P (contents rawProtected) = Inr decoded \<and>
      Alg (case decoded of None \<Rightarrow> [] | Some h \<Rightarrow> h) \<noteq> [] \<and>
      Enc (case decoded of None \<Rightarrow> [] | Some h \<Rightarrow> h) \<noteq> [] \<and>
      firstError P [p1, p2, p3, p4] = Some e \<longrightarrow>
      parseEncryptedCompact P input = Inl e"
    by (auto simp: parseEncryptedCompact_def Let_def split: sum.splits)
  have fails: "splitOn CHR ''.'' input = [p0, p1, p2, p3, p4] \<and>
      firstError P [p0, p1, p2, p3, p4] \<noteq> None \<longrightarrow>
      (\<exists>err. parseEncryptedCompact P input = Inl err)"
    by (auto simp: parseEncryptedCompact_def Let_def split: sum.splits)
  have dispatch: "take 1 (stripWhitespace s) \<noteq> ''{'' \<longrightarrow>
      ParseEncrypted P s = parseEncryptedCompact P (stripWhitespace s)"
    by (simp add: ParseEncrypted_def Let_def)
  from count first json missing later fails dispatch show ?thesis by blast
qed

text \<open>The claim as it was stated fails: with five segments of which the second is not
  base64url, the parser reports the missing \<open>alg\<close> and \<open>enc\<close> of the header \<open>{}\<close>, which it
  checks before it decodes the second segment.\<close>

theorem compact_segments_counterexample:
  "splitOn CHR ''.'' ''e30.!...'' = [''e30'', ''!'', [], [], []]
   \<and> base64URLDecode (refPrims noRaw) ''!'' = Inl Base64Error
   \<and> parseEncryptedCompact (refPrims noRaw) ''e30.!...'' = Inl MissingAlgEnc"
proof -
  have s: "splitOn CHR ''.'' ''e30.!...'' = [''e30'', ''!'', [], [], []]" by simp
  have d: "base64URLDecode (refPrims noRaw) ''e30'' = Inr (Some ''{}'')"
    by (simp add: refPrims_def refDecode_def sextetOf_def char_of_def bit_0)
  have b: "base64URLDecode (refPrims noRaw) ''!'' = Inl Base64Error"
    by (simp add: refPrims_def refDecode_def sextetOf_def)
  have u: "unmarshalHeader (refPrims noRaw) ''{}'' = Inr (Some [])"
    by (simp add: refPrims_def refUnmarshalHeader_def stripWhitespace_def whitespace_def)
  have "parseEncryptedCompact (refPrims noRaw) ''e30.!...'' = Inl MissingAlgEnc"
    unfolding parseEncryptedCompact_def s by (simp add: d u contents_def Alg_def)
  with s b show ?thesis by blast
qed

theorem compact_segments_witness:
  "length (splitOn CHR ''.'' ''a.b'') \<noteq> 5 \<and>
   parseEncryptedCompact (refPrims noRaw) ''a.b'' = Inl MalformedCompact \<and>
   splitOn CHR ''.'' ''!....'' = [''!'', [], [], [], []] \<and>
   base64URLDecode (refPrims noRaw) ''!'' = Inl Base64Error \<and>
   parseEncryptedCompact (refPrims noRaw) ''!....'' = Inl Base64Error \<and>
   splitOn CHR ''.'' ''eA.!...'' = [''eA'', ''!'', [], [], []] \<and>
   base64URLDecode (refPrims noRaw) ''eA'' = Inr (Some ''x'') \<and>
   unmarshalHeader (refPrims noRaw) (contents (Some ''x'')) = Inl JSONSyntaxError \<and>
   parseEncryptedCompact (refPrims noRaw) ''eA.!...'' = Inl JSONSyntaxError \<and>
   splitOn CHR ''.'' ''e30.!...'' = [''e30'', ''!'', [], [], []] \<and>
   base64URLDecode (refPrims noRaw) ''e30'' = Inr (Some ''{}'') \<and>
   unmarshalHeader (refPrims noRaw) (contents (Some ''{}'')) = Inr (Some []) \<and>
   Alg [] = [] \<and>
   parseEncryptedCompact (refPrims noRaw) ''e30.!...'' = Inl MissingAlgEnc \<and>
   firstError (refPrims noRaw) ([] # [''!'', ''ZGVm'', ''Z2hp'']) = Some Base64Error \<and>
   parseEncryptedCompact (refPrims noRaw) badIvCompact = Inl Base64Error \<and>
   take 1 (stripWhitespace ''a .b'') \<noteq> ''{'' \<and>
   ParseEncrypted (refPrims noRaw) ''a .b'' = parseEncryptedCompact (refPrims noRaw) ''a.b''"
proof -
  let ?P = "refPrims noRaw"
  have n: "length (splitOn CHR ''.'' ''a.b'') \<noteq> 5" by simp
  have s1: "splitOn CHR ''.'' ''!....'' = [''!'', [], [], [], []]" by simp
  have s2: "splitOn CHR ''.'' ''eA.!...'' = [''eA'', ''!'', [], [], []]" by simp
  have s3: "splitOn CHR ''.'' ''e30.!...'' = [''e30'', ''!'', [], [], []]" by simp
  have b: "base64URLDecode ?P ''!'' = Inl Base64Error" by (simp add: refPrims_sel dec_bad)
  have dx: "base64URLDecode ?P ''eA'' = Inr (Some ''x'')"
    by (simp add: refPrims_sel refDecode_def sextetOf_def char_of_def bit_0)
  have ux: "unmarshalHeader ?P (contents (Some ''x'')) = Inl JSONSyntaxError"
    by (simp add: refPrims_sel contents_def refUnmarshalHeader_def stripWhitespace_def
          whitespace_def)
  have de: "base64URLDecode ?P ''e30'' = Inr (Some ''{}'')"
    by (simp add: refPrims_sel refDecode_def sextetOf_def char_of_def bit_0)
  have ue: "unmarshalHeader ?P (contents (Some ''{}'')) = Inr (Some [])"
    by (simp add: refPrims_sel contents_def refUnmarshalHeader_def stripWhitespace_def
          whitespace_def)
  have a: "Alg [] = []" by (simp add: Alg_def)
  have d0: "base64URLDecode ?P ''eyJhbGciOiJkaXIiLCJlbmMiOiJBMTI4R0NNIn0'' = Inr (Some exampleHeaderBytes)"
    by (simp add: refPrims_sel dec_exampleHeader)
  have u: "unmarshalHeader ?P (contents (Some exampleHeaderBytes)) = Inr (Some exampleHeader)"
    by (simp add: refPrims_sel contents_def unm_exampleHeader)
  have fe: "firstError ?P ([] # [''!'', ''ZGVm'', ''Z2hp'']) = Some Base64Error"
    by (simp add: refPrims_sel dec_small dec_bad)
  have w: "stripWhitespace ''a .b'' = ''a.b''" by (simp add: stripWhitespace_def whitespace_def)
  note T1 = compact_segments [where P = ?P and input = "''a.b''", THEN conjunct1]
  note T2 = compact_segments [where P = ?P and input = "''!....''" and ?p0.0 = "''!''"
      and ?p1.0 = "[]" and ?p2.0 = "[]" and ?p3.0 = "[]" and ?p4.0 = "[]" and e = Base64Error,
      THEN conjunct2, THEN conjunct1]
  note T3 = compact_segments [where P = ?P and input = "''eA.!...''" and ?p0.0 = "''eA''"
      and ?p1.0 = "''!''" and ?p2.0 = "[]" and ?p3.0 = "[]" and ?p4.0 = "[]"
      and e = JSONSyntaxError and rawProtected = "Some ''x''",
      THEN conjunct2, THEN conjunct2, THEN conjunct1]
  note T4 = compact_segments [where P = ?P and input = "''e30.!...''" and ?p0.0 = "''e30''"
      and ?p1.0 = "''!''" and ?p2.0 = "[]" and ?p3.0 = "[]" and ?p4.0 = "[]"
      and rawProtected = "Some ''{}''" and decoded = "Some []",
      THEN conjunct2, THEN conjunct2, THEN conjunct2, THEN conjunct1]
  note T5 = compact_segments [where P = ?P and input = badIvCompact
      and ?p0.0 = "''eyJhbGciOiJkaXIiLCJlbmMiOiJBMTI4R0NNIn0''"
      and ?p1.0 = "[]" and ?p2.0 = "''!''" and ?p3.0 = "''ZGVm''" and ?p4.0 = "''Z2hp''"
      and e = Base64Error and rawProtected = "Some exampleHeaderBytes"
      and decoded = "Some exampleHeader",
      THEN conjunct2, THEN conjunct2, THEN conjunct2, THEN conjunct2, THEN conjunct1]
  note T7 = compact_segments [where P = ?P and s = "''a .b''",
      THEN conjunct2, THEN conjunct2, THEN conjunct2, THEN conjunct2, THEN conjunct2,
      THEN conjunct2]
  from T1 n have r1: "parseEncryptedCompact ?P ''a.b'' = Inl MalformedCompact" by blast
  from T2 s1 b have r2: "parseEncryptedCompact ?P ''!....'' = Inl Base64Error" by blast
  from T3 s2 dx ux have r3: "parseEncryptedCompact ?P ''eA.!...'' = Inl JSONSyntaxError" by blast
  from T4 s3 de ue a have r4: "parseEncryptedCompact ?P ''e30.!...'' = Inl MissingAlgEnc" by simp
  from T5 split_badIv d0 u fe exampleHeader_alg_enc
  have r5: "parseEncryptedCompact ?P badIvCompact = Inl Base64Error" by simp
  have t: "take 1 (stripWhitespace ''a .b'') \<noteq> ''{''" by (simp add: w)
  from T7 t have r7: "ParseEncrypted ?P ''a .b'' = parseEncryptedCompact ?P ''a.b''"
    by (simp add: w)
  from n r1 s1 b r2 s2 dx ux r3 s3 de ue a r4 fe r5 t r7 show ?thesis by blast
qed

text \<open>
  Claim C8. In the parser of the JSON form, an absent or empty \<open>recipients\<close> array gives
  exactly one recipient, made of the top-level \<open>header\<close> and \<open>encrypted_key\<close> as they are
  (either may be absent; an absent key gives an empty key, and the object is accepted when
  its headers have \<open>alg\<close> and \<open>enc\<close>). Otherwise there is one recipient for each entry of the
  array, in order, with the header of the entry and the base64url decoding of its
  \<open>encrypted_key\<close> string, and they are built whenever every key decodes. The object that
  the parser returns has these recipients.
\<close>

theorem full_recipients:
  assumes "unmarshalRaw P input = Inr parsed"
  shows "(Recipients parsed = [] \<longrightarrow>
            buildRecipients P parsed =
              Inr [\<lparr> header = Header parsed, encryptedKey = bytes (EncryptedKey parsed) \<rparr>])
       \<and> (Recipients parsed \<noteq> [] \<and> buildRecipients P parsed = Inr rs \<longrightarrow>
            length rs = length (Recipients parsed) \<and>
            (\<forall>i < length (Recipients parsed).
               header (rs ! i) = RecipientHeader (Recipients parsed ! i) \<and>
               base64URLDecode P (RecipientEncryptedKey (Recipients parsed ! i)) =
                 Inr (encryptedKey (rs ! i))))
       \<and> (Recipients parsed \<noteq> [] \<and>
            firstError P (map RecipientEncryptedKey (Recipients parsed)) = None \<longrightarrow>
            (\<exists>out. buildRecipients P parsed = Inr out))
       \<and> (parseEncryptedFull P input = Inr obj \<longrightarrow>
            buildRecipients P parsed = Inr (recipients obj))
       \<and> (decodeProtected P parsed = Inr prot \<and> buildRecipients P parsed = Inr rs \<and>
            (\<forall>r \<in> set rs. Alg (mergedHeaders (partialObject parsed prot rs) (Some r)) \<noteq> [] \<and>
                           Enc (mergedHeaders (partialObject parsed prot rs) (Some r)) \<noteq> []) \<longrightarrow>
            parseEncryptedFull P input =
              Inr ((partialObject parsed prot rs)
                     \<lparr> iv := bytes (Iv parsed), ciphertext := bytes (Ciphertext parsed),
                       tag := bytes (Tag parsed), aad := bytes (Aad parsed) \<rparr>))"
proof -
  have one: "Recipients parsed = [] \<longrightarrow>
            buildRecipients P parsed =
              Inr [\<lparr> header = Header parsed, encryptedKey = bytes (EncryptedKey parsed) \<rparr>]"
    by (simp add: buildRecipients_def)
  have entries: "Recipients parsed \<noteq> [] \<and> buildRecipients P parsed = Inr rs \<longrightarrow>
            length rs = length (Recipients parsed) \<and>
            (\<forall>i < length (Recipients parsed).
               header (rs ! i) = RecipientHeader (Recipients parsed ! i) \<and>
               base64URLDecode P (RecipientEncryptedKey (Recipients parsed ! i)) =
                 Inr (encryptedKey (rs ! i)))"
    using decodeRecipients_Inr [of P "Recipients parsed" rs]
    by (simp add: buildRecipients_def)
  have total: "Recipients parsed \<noteq> [] \<and>
            firstError P (map RecipientEncryptedKey (Recipients parsed)) = None \<longrightarrow>
            (\<exists>out. buildRecipients P parsed = Inr out)"
    using decodeRecipients_total [of P "Recipients parsed"]
    by (simp add: buildRecipients_def)
  have kept: "parseEncryptedFull P input = Inr obj \<longrightarrow>
            buildRecipients P parsed = Inr (recipients obj)"
    using assms
    by (auto simp: parseEncryptedFull_def Let_def partialObject_def split: sum.splits if_splits)
  have accepted: "decodeProtected P parsed = Inr prot \<and> buildRecipients P parsed = Inr rs \<and>
            (\<forall>r \<in> set rs. Alg (mergedHeaders (partialObject parsed prot rs) (Some r)) \<noteq> [] \<and>
                           Enc (mergedHeaders (partialObject parsed prot rs) (Some r)) \<noteq> []) \<longrightarrow>
            parseEncryptedFull P input =
              Inr ((partialObject parsed prot rs)
                     \<lparr> iv := bytes (Iv parsed), ciphertext := bytes (Ciphertext parsed),
                       tag := bytes (Tag parsed), aad := bytes (Aad parsed) \<rparr>)"
  proof -
    have rec: "recipients (partialObject parsed prot rs) = rs" by (simp add: partialObject_def)
    show ?thesis
      using assms by (auto simp: parseEncryptedFull_def Let_def rec checkAlgEnc_iff)
  qed
  from one entries total kept accepted show ?thesis by blast
qed

theorem full_recipients_witness:
  "unmarshalRaw (refPrims (jsonTable [(flatText, flatRaw)])) flatText = Inr flatRaw \<and>
   Recipients flatRaw = [] \<and> Header flatRaw = None \<and> EncryptedKey flatRaw = None \<and>
   buildRecipients (refPrims (jsonTable [(flatText, flatRaw)])) flatRaw =
     Inr [\<lparr> header = None, encryptedKey = None \<rparr>] \<and>
   parseEncryptedFull (refPrims (jsonTable [(flatText, flatRaw)])) flatText =
     Inr ((partialObject flatRaw (Some exampleHeader) [\<lparr> header = None, encryptedKey = None \<rparr>])
            \<lparr> iv := Some ''abc'', ciphertext := Some ''def'', tag := Some ''ghi'', aad := None \<rparr>) \<and>
   unmarshalRaw (refPrims (jsonTable [(arrayText, arrayRaw)])) arrayText = Inr arrayRaw \<and>
   Recipients arrayRaw \<noteq> [] \<and>
   buildRecipients (refPrims (jsonTable [(arrayText, arrayRaw)])) arrayRaw =
     Inr [\<lparr> header = None, encryptedKey = Some ''k1'' \<rparr>,
          \<lparr> header = Some [(''kid'', ''b'')], encryptedKey = Some ''k2'' \<rparr>] \<and>
   length [\<lparr> header = None, encryptedKey = Some ''k1'' \<rparr>,
           \<lparr> header = Some [(''kid'', ''b'')], encryptedKey = Some ''k2'' \<rparr>] =
     length (Recipients arrayRaw)"
proof -
  let ?F = "refPrims (jsonTable [(flatText, flatRaw)])"
  let ?A = "refPrims (jsonTable [(arrayText, arrayRaw)])"
  let ?r = "\<lparr> header = None, encryptedKey = None \<rparr>"
  let ?rs = "[\<lparr> header = None, encryptedKey = Some ''k1'' \<rparr>,
              \<lparr> header = Some [(''kid'', ''b'')], encryptedKey = Some ''k2'' \<rparr>]"
  note F = full_recipients [where P = ?F and input = flatText and parsed = flatRaw
      and rs = "[?r]" and prot = "Some exampleHeader", OF unm_raw]
  note A = full_recipients [where P = ?A and input = arrayText and parsed = arrayRaw
      and rs = ?rs and prot = "Some exampleHeader", OF unm_raw]
  have arr: "Recipients arrayRaw \<noteq> []" by (simp add: arrayRaw_def)
  from F [THEN conjunct1] have f1: "buildRecipients ?F flatRaw = Inr [?r]"
    by (simp add: flat_fields bytes_simps)
  have ok: "\<forall>r \<in> set [?r].
              Alg (mergedHeaders (partialObject flatRaw (Some exampleHeader) [?r]) (Some r)) \<noteq> [] \<and>
              Enc (mergedHeaders (partialObject flatRaw (Some exampleHeader) [?r]) (Some r)) \<noteq> []"
    using flat_ok by blast
  from F [THEN conjunct2, THEN conjunct2, THEN conjunct2, THEN conjunct2] protected_flat(1) f1 ok
  have f5: "parseEncryptedFull ?F flatText =
     Inr ((partialObject flatRaw (Some exampleHeader) [?r])
            \<lparr> iv := bytes (Iv flatRaw), ciphertext := bytes (Ciphertext flatRaw),
              tag := bytes (Tag flatRaw), aad := bytes (Aad flatRaw) \<rparr>)"
    by blast
  from A [THEN conjunct2, THEN conjunct1] arr build_array
  have a2: "length ?rs = length (Recipients arrayRaw)" by blast
  show ?thesis
    using unm_raw [of flatText flatRaw] unm_raw [of arrayText arrayRaw] f1 f5 arr a2
      build_array [of "jsonTable [(arrayText, arrayRaw)]"]
    by (simp add: flat_fields bytes_simps)
qed

text \<open>
  Claim C9. The merged header of a recipient has, for every key, the entry of the
  recipient header if it has one, else that of the unprotected header, else that of the
  protected header: the three mappings are applied over an empty result in that order, a
  later one overwriting an earlier one, and an absent mapping (or an absent recipient)
  contributes nothing. The result has one entry for each key. The operation is a function of
  its arguments and returns a new header.
\<close>

theorem mergedHeaders_precedence:
  assumes "distinctKeys (protected obj)"
      and "distinctKeys (unprotected obj)"
      and "distinctKeys (headerOf recipient)"
  shows "map_of (mergedHeaders obj recipient) k =
           (case entryOf (headerOf recipient) k of
              Some v \<Rightarrow> Some v
            | None \<Rightarrow>
                (case entryOf (unprotected obj) k of
                   Some v \<Rightarrow> Some v
                 | None \<Rightarrow> entryOf (protected obj) k))
         \<and> distinct (map fst (mergedHeaders obj recipient))"
  using assms
  by (simp add: mergedHeaders_unfold map_of_merge distinct_merge split: option.splits)

theorem mergedHeaders_precedence_witness:
  "distinctKeys (protected mergeExample) \<and> distinctKeys (unprotected mergeExample) \<and>
   distinctKeys (headerOf (Some mergeRecipient)) \<and>
   map_of (mergedHeaders mergeExample (Some mergeRecipient)) ''alg'' = Some ''RSA-OAEP'' \<and>
   map_of (mergedHeaders mergeExample (Some mergeRecipient)) ''enc'' = Some ''A256GCM'' \<and>
   map_of (mergedHeaders mergeExample None) ''alg'' = Some ''dir''"
  using mergedHeaders_precedence [of mergeExample "Some mergeRecipient" "''alg''"]
        mergedHeaders_precedence [of mergeExample "Some mergeRecipient" "''enc''"]
        mergedHeaders_precedence [of mergeExample None "''alg''"]
  by (simp add: mergeExample_def mergeRecipient_def exampleHeader_def distinctKeys_def
        headerOf_def entryOf_def)

text \<open>
  Claim C10. An object returned by the compact parser has exactly one recipient, whose
  header is absent, and no unprotected header; \<open>CompactSerialize\<close> at such an object does
  not return \<open>ErrNotSupported\<close>, it returns a text.
\<close>

theorem compact_parsed_shape:
  assumes "parseEncryptedCompact P input = Inr obj"
  shows "(\<exists>r. recipients obj = [r] \<and> header r = None) \<and> unprotected obj = None
         \<and> CompactSerialize P obj \<noteq> Inl ErrNotSupported
         \<and> (\<exists>text. CompactSerialize P obj = Inr text)"
  using assms
  by (auto simp: parseEncryptedCompact_def CompactSerialize_def Let_def
           split: list.splits sum.splits if_splits)

theorem compact_parsed_shape_witness:
  "parseEncryptedCompact (refPrims noRaw) exampleCompact = Inr (parsedFrom exampleHeaderBytes) \<and>
   unprotected (parsedFrom exampleHeaderBytes) = None \<and>
   CompactSerialize (refPrims noRaw) (parsedFrom exampleHeaderBytes) \<noteq> Inl ErrNotSupported"
  using compact_parsed_shape [OF parse_exampleCompact, of noRaw]
  by (simp add: parse_exampleCompact)

end
